theory Spec2Isabelle
  imports Complex_Main
begin

section \<open>Quantity arithmetic layer\<close>

text \<open>
  Modelled from the spec: the module \<^verbatim>\<open>units.py\<close> (Decimal-valued pint quantities,
  \<^verbatim>\<open>Q_\<close>, \<^verbatim>\<open>DNAN\<close>, \<^verbatim>\<open>ZERO_VOL\<close>, \<^verbatim>\<open>_ratio\<close>) is not part of the sources at hand.
  The spec describes it as exact decimal quantities with a not-a-number sentinel for
  "undefined" that propagates through every arithmetic operation instead of raising.
  A magnitude is therefore an exact rational or \<open>DNAN\<close>. Volumes are kept in microlitres and
  concentrations in nanomolar, so that unit conversions (\<^verbatim>\<open>.to(uL)\<close>, \<^verbatim>\<open>.m_as("nL")\<close>) are
  the identity on the stored magnitude up to an exact scaling, which the model performs
  where the source does. Comparisons that involve the sentinel are false; \<^verbatim>\<open>!=\<close> is the
  negation of \<^verbatim>\<open>==\<close>. Infinite magnitudes are not part of the model. The spec does not say
  what a division by zero yields: the model gives the sentinel.
\<close>

datatype decimal = DNAN | Dec rat

fun isnan :: "decimal \<Rightarrow> bool" where
  "isnan DNAN = True"
| "isnan (Dec _) = False"

fun dadd :: "decimal \<Rightarrow> decimal \<Rightarrow> decimal" where
  "dadd (Dec a) (Dec b) = Dec (a + b)"
| "dadd _ _ = DNAN"

fun dsub :: "decimal \<Rightarrow> decimal \<Rightarrow> decimal" where
  "dsub (Dec a) (Dec b) = Dec (a - b)"
| "dsub _ _ = DNAN"

fun dmul :: "decimal \<Rightarrow> decimal \<Rightarrow> decimal" where
  "dmul (Dec a) (Dec b) = Dec (a * b)"
| "dmul _ _ = DNAN"

fun ddiv :: "decimal \<Rightarrow> decimal \<Rightarrow> decimal" where
  "ddiv (Dec a) (Dec b) = (if b = 0 then DNAN else Dec (a / b))"
| "ddiv _ _ = DNAN"

fun deq :: "decimal \<Rightarrow> decimal \<Rightarrow> bool" where
  "deq (Dec a) (Dec b) = (a = b)"
| "deq _ _ = False"

fun dlt :: "decimal \<Rightarrow> decimal \<Rightarrow> bool" where
  "dlt (Dec a) (Dec b) = (a < b)"
| "dlt _ _ = False"

definition dgt :: "decimal \<Rightarrow> decimal \<Rightarrow> bool" where
  "dgt a b = dlt b a"

definition ZERO_VOL :: decimal where
  "ZERO_VOL = Dec 0"

text \<open>\<^verbatim>\<open>sum(xs, start)\<close>: a left fold of \<^verbatim>\<open>+\<close> from the start value.\<close>

definition qsum :: "decimal list \<Rightarrow> decimal \<Rightarrow> decimal" where
  "qsum xs start = foldl dadd start xs"

text \<open>\<^verbatim>\<open>_ratio(top, bottom)\<close> for a scalar \<^verbatim>\<open>top\<close> and a sequence \<^verbatim>\<open>bottom\<close>.\<close>

definition ratio_scalar_seq :: "decimal \<Rightarrow> decimal list \<Rightarrow> decimal list" where
  "ratio_scalar_seq numer denoms = map (\<lambda>y. ddiv numer y) denoms"

text \<open>\<^verbatim>\<open>_ratio(top, bottom)\<close> for a sequence \<^verbatim>\<open>top\<close> and a scalar \<^verbatim>\<open>bottom\<close>.\<close>

definition ratio_seq_scalar :: "decimal list \<Rightarrow> decimal \<Rightarrow> decimal list" where
  "ratio_seq_scalar numers denom = map (\<lambda>x. ddiv x denom) numers"

datatype error =
    ValueError | TypeError | NotImplementedError | IndexError | RecursionError | RuntimeError
  | AttributeError

text \<open>
  Python's \<^verbatim>\<open>round(d)\<close> on a Decimal: the nearest integer, ties to the even one; a NaN
  raises \<^verbatim>\<open>ValueError\<close>.
\<close>

definition round_half_even :: "rat \<Rightarrow> int" where
  "round_half_even x =
     (let f = \<lfloor>x\<rfloor>; d = x - of_int f
      in if d < 1 / 2 then f else if 1 / 2 < d then f + 1 else if even f then f else f + 1)"

fun py_round :: "decimal \<Rightarrow> error + int" where
  "py_round DNAN = Inl ValueError"
| "py_round (Dec x) = Inr (round_half_even x)"

text \<open>\<^verbatim>\<open>max(xs)\<close> and \<^verbatim>\<open>min(xs)\<close>: the first extremal element; empty input raises.\<close>

fun py_max :: "decimal list \<Rightarrow> error + decimal" where
  "py_max [] = Inl ValueError"
| "py_max (x # xs) = Inr (foldl (\<lambda>m y. if dgt y m then y else m) x xs)"

fun py_min :: "decimal list \<Rightarrow> error + decimal" where
  "py_min [] = Inl ValueError"
| "py_min (x # xs) = Inr (foldl (\<lambda>m y. if dlt y m then y else m) x xs)"


section \<open>Components\<close>

text \<open>
  \<^verbatim>\<open>components.py\<close>: a \<^verbatim>\<open>Component\<close> has a name, a concentration (the sentinel when
  undefined), a plate (the empty string when unset) and an optional well; a \<^verbatim>\<open>Strand\<close> adds
  an optional sequence. A \<^verbatim>\<open>Mix\<close> that is used as a source component of another mix is
  represented by the values it exposes to the actions and the validation that draw from it:
  its name, its concentration and its fixed total volume; its plate is empty and its well is
  \<^verbatim>\<open>None\<close>, as \<^verbatim>\<open>AbstractComponent\<close> defines them.
\<close>

type_synonym wellpos = "nat \<times> nat"

datatype component =
    Component (name: string) (concentration: decimal) (plate: string) (well: "wellpos option")
  | Strand (name: string) (concentration: decimal) (plate: string) (well: "wellpos option")
      (sequence: "string option")
  | MixComponent (name: string) (concentration: decimal) (fixed_total_volume: decimal)
where
  "plate (MixComponent n c v) = []"
| "well (MixComponent n c v) = None"

fun is_mix :: "component \<Rightarrow> bool" where
  "is_mix (MixComponent _ _ _) = True"
| "is_mix _ = False"

section \<open>Actions\<close>

text \<open>
  The four acoustic-dispenser actions are the classes of \<^verbatim>\<open>echo.py\<close>. The classes
  \<^verbatim>\<open>FixedVolume\<close>, \<^verbatim>\<open>FixedConcentration\<close> and \<^verbatim>\<open>FillToVolume\<close> live in \<^verbatim>\<open>actions.py\<close>,
  which is not part of the sources at hand; the fields of \<^verbatim>\<open>FixedVolume\<close> are those that
  \<^verbatim>\<open>split_mix\<close> reads and passes to its constructor.
\<close>

datatype echo_method = MinVolume | MaxVolume | MaxFill string | Check | OtherMethod

datatype action =
    FixedVolume (components: "component list") (fixed_volume: decimal)
      (set_name: "string option") (compact_display: bool)
  | FixedConcentration (components: "component list") (fixed_concentration: decimal)
      (set_name: "string option") (compact_display: bool)
  | FillToVolume (components: "component list") (target_total_volume: decimal)
  | EchoFixedVolume (components: "component list") (fixed_volume: decimal)
      (set_name: "string option") (droplet_volume: decimal) (compact_display: bool)
  | EchoEqualTargetConcentration (components: "component list") (fixed_volume: decimal)
      (set_name: "string option") (droplet_volume: decimal)
      (compact_display: bool) (echo_method: echo_method)
  | EchoTargetConcentration (components: "component list") (target_concentration: decimal)
      (set_name: "string option") (droplet_volume: decimal) (compact_display: bool)
  | EchoFillToVolume (components: "component list") (target_total_volume: decimal)
      (droplet_volume: decimal)

text \<open>\<^verbatim>\<open>DEFAULT_DROPLET_VOL = Q_(25, "nL")\<close>, in microlitres.\<close>

definition DEFAULT_DROPLET_VOL :: decimal where
  "DEFAULT_DROPLET_VOL = Dec (25 / 1000)"

text \<open>
  Modelled from the spec: \<^verbatim>\<open>ActionWithComponents.source_concentrations\<close> (in the absent
  \<^verbatim>\<open>actions.py\<close>): the concentration of every component of the action, in order.
\<close>

fun source_concentrations :: "component list \<Rightarrow> decimal list" where
  "source_concentrations cs = map concentration cs"

text \<open>
  The body shared by the \<^verbatim>\<open>min_volume\<close> and \<^verbatim>\<open>max_volume\<close> branches of
  \<^verbatim>\<open>EchoEqualTargetConcentration.each_volumes\<close> and by \<^verbatim>\<open>EchoFillToVolume\<close>:
  \<^verbatim>\<open>round((v / droplet_volume).m_as("")) * droplet_volume\<close>.
\<close>

definition quantize :: "decimal \<Rightarrow> decimal \<Rightarrow> error + decimal" where
  "quantize dv v =
     (case py_round (ddiv v dv) of
        Inl e \<Rightarrow> Inl e
      | Inr k \<Rightarrow> Inr (dmul (Dec (of_int k)) dv))"

text \<open>A list comprehension whose body may raise: the first error ends it.\<close>

fun mapM :: "('a \<Rightarrow> error + 'b) \<Rightarrow> 'a list \<Rightarrow> error + 'b list" where
  "mapM f [] = Inr []"
| "mapM f (x # xs) =
     (case f x of
        Inl e \<Rightarrow> Inl e
      | Inr y \<Rightarrow> (case mapM f xs of Inl e \<Rightarrow> Inl e | Inr ys \<Rightarrow> Inr (y # ys)))"

text \<open>
  Modelled from the spec: \<^verbatim>\<open>each_volumes\<close> of \<^verbatim>\<open>FixedVolume\<close> (in the absent
  \<^verbatim>\<open>actions.py\<close>): every listed component receives the same, caller-given volume,
  whatever the mix volume is.
\<close>

fun FixedVolume_each_volumes :: "component list \<Rightarrow> decimal \<Rightarrow> decimal list" where
  "FixedVolume_each_volumes cs fv = replicate (length cs) fv"

text \<open>
  Modelled from the spec: \<^verbatim>\<open>each_volumes\<close> of \<^verbatim>\<open>FixedConcentration\<close> (in the absent
  \<^verbatim>\<open>actions.py\<close>): for every component, \<^verbatim>\<open>mix_vol * (target / source_concentration)\<close>.
\<close>

fun FixedConcentration_each_volumes :: "component list \<Rightarrow> decimal \<Rightarrow> decimal \<Rightarrow> decimal list" where
  "FixedConcentration_each_volumes cs fc mix_vol =
     map (\<lambda>r. dmul mix_vol r) (ratio_scalar_seq fc (source_concentrations cs))"

text \<open>
  Modelled from the spec: \<^verbatim>\<open>each_volumes\<close> of \<^verbatim>\<open>FillToVolume\<close> (in the absent
  \<^verbatim>\<open>actions.py\<close>), given the transfer volumes of the other actions of the mix: the target,
  or the mix volume when no target is given, minus the sum of the others; more than one
  component is not implemented.
\<close>

fun FillToVolume_each_volumes ::
  "component list \<Rightarrow> decimal \<Rightarrow> decimal \<Rightarrow> decimal list \<Rightarrow> error + decimal list" where
  "FillToVolume_each_volumes cs ttv mix_vol others =
     (if length cs > 1 then Inl NotImplementedError
      else Inr [dsub (if isnan ttv then mix_vol else ttv) (qsum others (Dec 0))])"

text \<open>
  Modelled from the spec: \<^verbatim>\<open>AbstractAction.tx_volume\<close> (in the absent \<^verbatim>\<open>actions.py\<close>), given
  what \<^verbatim>\<open>each_volumes\<close> returned: the sum of the volumes, starting from zero microlitres.
\<close>

fun sum_each_volumes :: "decimal list \<Rightarrow> decimal" where
  "sum_each_volumes vs = qsum vs (Dec 0)"

text \<open>
  \<^verbatim>\<open>each_volumes(mix_vol, actions)\<close> and, for a list of actions, the list of their
  \<^verbatim>\<open>tx_volume(mix_vol, actions)\<close>. The equations for the four \<^verbatim>\<open>Echo\<close> classes follow
  \<^verbatim>\<open>echo.py\<close>. A fill-to-volume action asks every other action of the mix for its transfer
  volume, so the two functions call each other; two fill-to-volume actions in one mix ask
  each other for ever, and Python ends that with a \<^verbatim>\<open>RecursionError\<close>. The first
  argument bounds the depth of calls and plays the part of the interpreter's recursion
  limit. The test \<^verbatim>\<open>a is not self\<close> is modelled by inequality of values: the actions of one
  mix are taken to be pairwise different.
\<close>

function each_volumes :: "nat \<Rightarrow> action \<Rightarrow> decimal \<Rightarrow> action list \<Rightarrow> error + decimal list"
  and tx_volumes :: "nat \<Rightarrow> decimal \<Rightarrow> action list \<Rightarrow> action list \<Rightarrow> error + decimal list"
where
  "each_volumes 0 a mix_vol acts = Inl RecursionError"
| "each_volumes (Suc n) (FixedVolume cs fv sn cd) mix_vol acts =
     Inr (FixedVolume_each_volumes cs fv)"
| "each_volumes (Suc n) (FixedConcentration cs fc sn cd) mix_vol acts =
     Inr (FixedConcentration_each_volumes cs fc mix_vol)"
| "each_volumes (Suc n) (FillToVolume cs ttv) mix_vol acts =
     (case tx_volumes n mix_vol acts (filter (\<lambda>a. a \<noteq> FillToVolume cs ttv) acts) of
        Inl e \<Rightarrow> Inl e
      | Inr others \<Rightarrow> FillToVolume_each_volumes cs ttv mix_vol others)"
| "each_volumes (Suc n) (EchoFixedVolume cs fv sn dv cd) mix_vol acts =
     Inr (replicate (length cs) fv)"
| "each_volumes (Suc n) (EchoEqualTargetConcentration cs fv sn dv cd m) mix_vol acts =
     (case m of
        MinVolume \<Rightarrow>
          (case py_max (source_concentrations cs) of
             Inl e \<Rightarrow> Inl e
           | Inr scmax \<Rightarrow>
               mapM (\<lambda>x. quantize dv (dmul fv x)) (ratio_scalar_seq scmax (source_concentrations cs)))
      | MaxVolume \<Rightarrow>
          (case py_min (source_concentrations cs) of
             Inl e \<Rightarrow> Inl e
           | Inr scmin \<Rightarrow>
               mapM (\<lambda>x. quantize dv (dmul fv x)) (ratio_scalar_seq scmin (source_concentrations cs)))
      | MaxFill s \<Rightarrow>
          (case py_min (source_concentrations cs) of
             Inl e \<Rightarrow> Inl e
           | Inr scmin \<Rightarrow>
               mapM (\<lambda>x. quantize dv (dmul fv x)) (ratio_scalar_seq scmin (source_concentrations cs)))
      | Check \<Rightarrow>
          (if list_ex (\<lambda>x. \<not> deq x (hd (source_concentrations cs))) (source_concentrations cs)
           then Inl ValueError
           else Inr (replicate (length cs) fv))
      | OtherMethod \<Rightarrow> Inl ValueError)"
| "each_volumes (Suc n) (EchoTargetConcentration cs tc sn dv cd) mix_vol acts =
     mapM (\<lambda>r. if \<not> isnan mix_vol \<and> \<not> isnan r then quantize dv (dmul mix_vol r) else Inr DNAN)
       (ratio_scalar_seq tc (source_concentrations cs))"
| "each_volumes (Suc n) (EchoFillToVolume cs ttv dv) mix_vol acts =
     (case tx_volumes n mix_vol acts (filter (\<lambda>a. a \<noteq> EchoFillToVolume cs ttv dv) acts) of
        Inl e \<Rightarrow> Inl e
      | Inr others \<Rightarrow>
          if length cs > 1 then Inl NotImplementedError
          else (case quantize dv (dsub (if isnan ttv then mix_vol else ttv) (qsum others (Dec 0))) of
                  Inl e \<Rightarrow> Inl e
                | Inr v \<Rightarrow> Inr [v]))"
| "tx_volumes n mix_vol acts [] = Inr []"
| "tx_volumes n mix_vol acts (a # rest) =
     (case each_volumes n a mix_vol acts of
        Inl e \<Rightarrow> Inl e
      | Inr vs \<Rightarrow>
          (case tx_volumes n mix_vol acts rest of
             Inl e \<Rightarrow> Inl e
           | Inr ts \<Rightarrow> Inr (sum_each_volumes vs # ts)))"
  by pat_completeness auto
termination
  by (relation "measures
         [\<lambda>x. case x of Inl (n, a, mv, acts) \<Rightarrow> 2 * n | Inr (n, mv, acts, rest) \<Rightarrow> 2 * n + 1,
          \<lambda>x. case x of Inl _ \<Rightarrow> 0 | Inr (n, mv, acts, rest) \<Rightarrow> length rest]")
     auto

section \<open>Reference tables\<close>

text \<open>
  A reference is a table with the columns \<^verbatim>\<open>Name\<close>, \<^verbatim>\<open>Concentration (nM)\<close>, \<^verbatim>\<open>Plate\<close>,
  \<^verbatim>\<open>Well\<close> and \<^verbatim>\<open>Sequence\<close>, read row by row. The cell of the \<^verbatim>\<open>Well\<close> column is kept
  as \<^verbatim>\<open>_parse_wellpos_optional\<close> returns it. A \<^verbatim>\<open>Sequence\<close> cell is a string, \<^verbatim>\<open>None\<close>, or
  some other value (a missing value of the table).
\<close>

datatype seq_cell = SeqStr string | SeqNone | SeqOther

record ref_row =
  Name :: string
  Concentration_nM :: decimal
  Plate :: string
  Well :: "wellpos option"
  Sequence :: seq_cell

type_synonym reference = "ref_row list"

section \<open>Mixes\<close>

datatype conc_spec = NoConcentration | ConcentrationQuantity decimal | ConcentrationOf string

record mix =
  actions :: "action list"
  name :: string
  test_tube_name :: "string option"
  fixed_total_volume :: decimal
  fixed_concentration :: conc_spec
  buffer_name :: string
  reference :: "reference option"
  min_volume :: decimal

text \<open>
  The converter \<^verbatim>\<open>_maybesequence_action\<close>: a sequence of actions becomes a list, one
  action becomes a list of one.
\<close>

datatype actions_arg = ActionSequence "action list" | SingleAction action

fun maybesequence_action :: "actions_arg \<Rightarrow> action list" where
  "maybesequence_action (ActionSequence xs) = xs"
| "maybesequence_action (SingleAction a) = [a]"

text \<open>
  Modelled from the spec: the converter \<^verbatim>\<open>_parse_vol_optional\<close> of the absent \<^verbatim>\<open>units.py\<close>:
  an undefined value is the not-a-number sentinel, never an absent field, so \<^verbatim>\<open>None\<close>
  becomes the sentinel and a volume is kept.
\<close>

fun parse_vol_optional :: "decimal option \<Rightarrow> decimal" where
  "parse_vol_optional None = DNAN"
| "parse_vol_optional (Some v) = v"

text \<open>
  The constructor of \<^verbatim>\<open>Mix\<close>: the converters of the fields, then
  \<^verbatim>\<open>__attrs_post_init__\<close>. The method \<^verbatim>\<open>with_reference\<close> of the actions is in the absent
  \<^verbatim>\<open>actions.py\<close> and is the parameter \<open>awr\<close> here; it may raise. After the converter the
  field \<^verbatim>\<open>actions\<close> is a list, so the test \<^verbatim>\<open>self.actions is None\<close> never holds. Every
  argument is given: an argument left out in Python is its default (the empty name, no
  test tube name, no fixed total volume, no fixed concentration, the buffer name
  \<^verbatim>\<open>"Buffer"\<close>, no reference, a minimum volume of 0.5 microlitres).
\<close>

definition Mix_init ::
  "(reference \<Rightarrow> action \<Rightarrow> error + action) \<Rightarrow> actions_arg \<Rightarrow> string \<Rightarrow> string option \<Rightarrow>
   decimal option \<Rightarrow> conc_spec \<Rightarrow> string \<Rightarrow> reference option \<Rightarrow> decimal option \<Rightarrow> error + mix"
where
  "Mix_init awr acts_arg nm ttn ftv fc bn ref mv =
     (case (case ref of
              None \<Rightarrow> Inr (maybesequence_action acts_arg)
            | Some r \<Rightarrow> mapM (awr r) (maybesequence_action acts_arg)) of
        Inl e \<Rightarrow> Inl e
      | Inr acts \<Rightarrow>
          if length acts = 0 then Inl ValueError
          else Inr \<lparr>actions = acts, name = nm, test_tube_name = ttn,
                    fixed_total_volume = parse_vol_optional ftv, fixed_concentration = fc,
                    buffer_name = bn, reference = ref, min_volume = parse_vol_optional mv\<rparr>)"

text \<open>
  \<^verbatim>\<open>Mix.total_volume\<close>. The field is never \<^verbatim>\<open>None\<close>, so the first test is whether it is the
  sentinel; in the other branch \<^verbatim>\<open>self.fixed_total_volume or Q_(DNAN, uL)\<close> is the field
  itself, the sentinel.
\<close>

definition total_volume :: "nat \<Rightarrow> mix \<Rightarrow> error + decimal" where
  "total_volume n m =
     (if \<not> isnan (mix.fixed_total_volume m) then Inr (mix.fixed_total_volume m)
      else (case tx_volumes n (mix.fixed_total_volume m) (actions m) (actions m) of
              Inl e \<Rightarrow> Inl e
            | Inr ts \<Rightarrow> Inr (qsum ts (Dec 0))))"

text \<open>\<^verbatim>\<open>Mix.buffer_volume\<close>.\<close>

definition buffer_volume :: "nat \<Rightarrow> mix \<Rightarrow> error + decimal" where
  "buffer_volume n m =
     (case total_volume n m of
        Inl e \<Rightarrow> Inl e
      | Inr tv \<Rightarrow>
          (case tx_volumes n tv (actions m) (actions m) of
             Inl e \<Rightarrow> Inl e
           | Inr ts \<Rightarrow> Inr (dsub tv (qsum ts (Dec 0)))))"

fun is_FixedConcentration :: "action \<Rightarrow> bool" where
  "is_FixedConcentration (FixedConcentration _ _ _ _) = True"
| "is_FixedConcentration _ = False"

definition has_fixed_concentration_action :: "mix \<Rightarrow> bool" where
  "has_fixed_concentration_action m = list_ex is_FixedConcentration (actions m)"

definition has_fixed_total_volume :: "mix \<Rightarrow> bool" where
  "has_fixed_total_volume m = (\<not> isnan (mix.fixed_total_volume m))"


section \<open>Construction of the acoustic-dispenser actions\<close>

text \<open>
  The converter \<^verbatim>\<open>_maybesequence_comps\<close> of \<^verbatim>\<open>components.py\<close>: a string names one new
  component, a sequence is taken item by item (a string again names a new component), any
  other object is a list of one. \<^verbatim>\<open>Component(x)\<close> with a name only has the undefined
  concentration, the empty plate and no well.
\<close>

datatype comp_item = ItemName string | ItemComponent component

datatype comps_arg = CompsName string | CompsSequence "comp_item list" | CompsOne component

fun item_component :: "comp_item \<Rightarrow> component" where
  "item_component (ItemName x) = Component x DNAN [] None"
| "item_component (ItemComponent c) = c"

fun maybesequence_comps :: "comps_arg \<Rightarrow> component list" where
  "maybesequence_comps (CompsName x) = [Component x DNAN [] None]"
| "maybesequence_comps (CompsSequence xs) = map item_component xs"
| "maybesequence_comps (CompsOne c) = [c]"

text \<open>
  Modelled from the spec: the converters \<^verbatim>\<open>_parse_vol_required\<close> and
  \<^verbatim>\<open>_parse_conc_required\<close> of the absent \<^verbatim>\<open>units.py\<close>: a quantity is kept, \<^verbatim>\<open>None\<close> is
  refused.
\<close>

fun parse_required :: "decimal option \<Rightarrow> error + decimal" where
  "parse_required None = Inl ValueError"
| "parse_required (Some v) = Inr v"

text \<open>
  The constructors that \<^verbatim>\<open>attrs.define\<close> generates for the classes of \<^verbatim>\<open>echo.py\<close>: every
  field is passed through its converter and stored. None of the four classes declares a
  validator or an \<^verbatim>\<open>__attrs_post_init__\<close>, and nothing in the sources at hand calls
  \<^verbatim>\<open>_check_volume\<close>.
\<close>

definition EchoFixedVolume_init ::
  "comps_arg \<Rightarrow> decimal option \<Rightarrow> string option \<Rightarrow> decimal \<Rightarrow> bool \<Rightarrow> error + action" where
  "EchoFixedVolume_init cs fv sn dv cd =
     (case parse_required fv of
        Inl e \<Rightarrow> Inl e
      | Inr v \<Rightarrow> Inr (EchoFixedVolume (maybesequence_comps cs) v sn dv cd))"

definition EchoEqualTargetConcentration_init ::
  "comps_arg \<Rightarrow> decimal option \<Rightarrow> string option \<Rightarrow> decimal \<Rightarrow> bool \<Rightarrow> echo_method \<Rightarrow>
   error + action" where
  "EchoEqualTargetConcentration_init cs fv sn dv cd m =
     (case parse_required fv of
        Inl e \<Rightarrow> Inl e
      | Inr v \<Rightarrow> Inr (EchoEqualTargetConcentration (maybesequence_comps cs) v sn dv cd m))"

definition EchoTargetConcentration_init ::
  "comps_arg \<Rightarrow> decimal option \<Rightarrow> string option \<Rightarrow> decimal \<Rightarrow> bool \<Rightarrow> error + action" where
  "EchoTargetConcentration_init cs tc sn dv cd =
     (case parse_required tc of
        Inl e \<Rightarrow> Inl e
      | Inr c \<Rightarrow> Inr (EchoTargetConcentration (maybesequence_comps cs) c sn dv cd))"

definition EchoFillToVolume_init :: "comps_arg \<Rightarrow> decimal option \<Rightarrow> decimal \<Rightarrow> error + action" where
  "EchoFillToVolume_init cs ttv dv =
     Inr (EchoFillToVolume (maybesequence_comps cs) (parse_vol_optional ttv) dv)"

text \<open>
  The remainder \<^verbatim>\<open>%\<close> of two Decimals has the sign of the dividend: the quotient is
  truncated towards zero. An undefined operand gives the sentinel; like division, a zero
  divisor is taken to give the sentinel.
\<close>

definition truncate :: "rat \<Rightarrow> int" where
  "truncate x = (if 0 \<le> x then \<lfloor>x\<rfloor> else \<lceil>x\<rceil>)"

fun dmod :: "decimal \<Rightarrow> decimal \<Rightarrow> decimal" where
  "dmod (Dec a) (Dec b) = (if b = 0 then DNAN else Dec (a - b * of_int (truncate (a / b))))"
| "dmod _ _ = DNAN"

text \<open>
  \<^verbatim>\<open>_check_volume\<close> of \<^verbatim>\<open>EchoFixedVolume\<close> and of \<^verbatim>\<open>EchoEqualTargetConcentration\<close>; both
  magnitudes are taken in nanolitres. The other classes have no such method.
\<close>

definition to_nL :: "decimal \<Rightarrow> decimal" where
  "to_nL v = dmul v (Dec 1000)"

fun check_volume :: "action \<Rightarrow> error + unit" where
  "check_volume (EchoFixedVolume cs fv sn dv cd) =
     (if \<not> deq (dmod (to_nL fv) (to_nL dv)) (Dec 0) then Inl ValueError else Inr ())"
| "check_volume (EchoEqualTargetConcentration cs fv sn dv cd m) =
     (if \<not> deq (dmod (to_nL fv) (to_nL dv)) (Dec 0) then Inl ValueError else Inr ())"
| "check_volume _ = Inl AttributeError"

fun is_echo :: "action \<Rightarrow> bool" where
  "is_echo (EchoFixedVolume _ _ _ _ _) = True"
| "is_echo (EchoEqualTargetConcentration _ _ _ _ _ _) = True"
| "is_echo (EchoTargetConcentration _ _ _ _ _) = True"
| "is_echo (EchoFillToVolume _ _ _) = True"
| "is_echo _ = False"

text \<open>The actions whose \<^verbatim>\<open>each_volumes\<close> hands out the stored \<^verbatim>\<open>fixed_volume\<close> as it is.\<close>

fun returns_fixed_volume :: "action \<Rightarrow> bool" where
  "returns_fixed_volume (EchoFixedVolume _ _ _ _ _) = True"
| "returns_fixed_volume (EchoEqualTargetConcentration _ _ _ _ _ m) = (m = Check)"
| "returns_fixed_volume _ = False"

fun is_EchoTargetConcentration :: "action \<Rightarrow> bool" where
  "is_EchoTargetConcentration (EchoTargetConcentration _ _ _ _ _) = True"
| "is_EchoTargetConcentration _ = False"

text \<open>
  A volume is an exact integer multiple of a droplet volume: both are defined and the
  volume is a whole number of droplets.
\<close>

definition droplet_multiple :: "decimal \<Rightarrow> decimal \<Rightarrow> bool" where
  "droplet_multiple v dv =
     (case v of
        DNAN \<Rightarrow> False
      | Dec a \<Rightarrow>
          (case dv of
             DNAN \<Rightarrow> False
           | Dec b \<Rightarrow> if b = 0 then a = 0 else of_int \<lfloor>a / b\<rfloor> = a / b))"

text \<open>
  The words of the claim on the \<^verbatim>\<open>check\<close> policy, "some source concentration differs from
  another": the list holds two different values.
\<close>

definition concentrations_differ :: "decimal list \<Rightarrow> bool" where
  "concentrations_differ sc = (1 < length (remdups sc))"

section \<open>Transfer lines and validation\<close>

text \<open>
  Modelled from the spec: the class \<^verbatim>\<open>MixLine\<close> of the absent \<^verbatim>\<open>printing.py\<close>, with the fields
  that \<^verbatim>\<open>mixes.py\<close> and \<^verbatim>\<open>echo.py\<close> pass and read. \<^verbatim>\<open>total_tx_vol\<close> may be \<^verbatim>\<open>None\<close>.
  \<^verbatim>\<open>Mix.mixlines\<close> builds the buffer line from four positional arguments and
  \<^verbatim>\<open>Mix.validate\<close> then reads its \<^verbatim>\<open>each_tx_vol\<close> as the (possibly negative) buffer volume:
  a line that is given no \<^verbatim>\<open>each_tx_vol\<close> and counts one item takes its \<^verbatim>\<open>total_tx_vol\<close>.
\<close>

record mixline =
  names :: "string list"
  source_conc :: "decimal option"
  dest_conc :: "decimal option"
  total_tx_vol :: "decimal option"
  number :: nat
  each_tx_vol :: decimal
  line_plate :: string

definition MixLine_init ::
  "string list \<Rightarrow> decimal option \<Rightarrow> decimal option \<Rightarrow> decimal option \<Rightarrow> decimal option \<Rightarrow>
   string \<Rightarrow> mixline" where
  "MixLine_init ns sc dc tot each pl =
     \<lparr>names = ns, source_conc = sc, dest_conc = dc, total_tx_vol = tot, number = 1,
      each_tx_vol = (case each of
                       Some e \<Rightarrow> e
                     | None \<Rightarrow> (case tot of Some t \<Rightarrow> t | None \<Rightarrow> DNAN)),
      line_plate = pl\<rparr>"

text \<open>
  Modelled from the spec: \<^verbatim>\<open>_mixlines\<close> of the pipetting actions of the absent
  \<^verbatim>\<open>actions.py\<close>, as the flat projection of the action's resolved quantities: one line
  for every component, in order, with the component's name, its source concentration and
  its transfer volume.
\<close>

definition pipetting_mixlines :: "nat \<Rightarrow> action \<Rightarrow> decimal \<Rightarrow> action list \<Rightarrow> error + mixline list" where
  "pipetting_mixlines n a mix_vol acts =
     (case each_volumes n a mix_vol acts of
        Inl e \<Rightarrow> Inl e
      | Inr vs \<Rightarrow>
          Inr (map (\<lambda>cv. MixLine_init [component.name (fst cv)] (Some (concentration (fst cv))) None
                            (Some (snd cv)) None (plate (fst cv)))
                 (zip (components a) vs)))"

text \<open>
  \<^verbatim>\<open>dest_concentrations\<close> of the classes of \<^verbatim>\<open>echo.py\<close>: source concentration times
  \<^verbatim>\<open>_ratio(each_volumes, mix_vol)\<close>, pairwise. \<^verbatim>\<open>EchoFixedVolume\<close> and
  \<^verbatim>\<open>EchoEqualTargetConcentration\<close> call \<^verbatim>\<open>each_volumes(mix_vol)\<close> without the actions,
  the other two pass them on.
\<close>

fun passes_actions :: "action \<Rightarrow> bool" where
  "passes_actions (EchoFixedVolume _ _ _ _ _) = False"
| "passes_actions (EchoEqualTargetConcentration _ _ _ _ _ _) = False"
| "passes_actions _ = True"

definition dest_concentrations :: "nat \<Rightarrow> action \<Rightarrow> decimal \<Rightarrow> action list \<Rightarrow> error + decimal list" where
  "dest_concentrations n a mix_vol acts =
     (case each_volumes n a mix_vol (if passes_actions a then acts else []) of
        Inl e \<Rightarrow> Inl e
      | Inr vs \<Rightarrow>
          Inr (map (\<lambda>xy. dmul (fst xy) (snd xy))
                 (zip (source_concentrations (components a)) (ratio_seq_scalar vs mix_vol))))"

fun none_if_nan :: "decimal \<Rightarrow> decimal option" where
  "none_if_nan DNAN = None"
| "none_if_nan (Dec x) = Some (Dec x)"

fun is_EchoFillToVolume :: "action \<Rightarrow> bool" where
  "is_EchoFillToVolume (EchoFillToVolume _ _ _) = True"
| "is_EchoFillToVolume _ = False"

text \<open>
  \<^verbatim>\<open>_mixlines\<close> of the classes of \<^verbatim>\<open>echo.py\<close>. Each computes \<^verbatim>\<open>dest_concentrations\<close> and
  then \<^verbatim>\<open>each_volumes\<close>, so an error of either is raised before any line is built.
  \<^verbatim>\<open>EchoFillToVolume\<close> then gives one line for every triple of destination concentration,
  volume and component, with \<^verbatim>\<open>"?"\<close> for an empty plate. The other three classes build
  their lines by grouping a data frame of an external library; that step is the parameter
  \<open>grp\<close>, from the action, the destination concentrations and the volumes to the lines.
\<close>

definition Echo_mixlines ::
  "(action \<Rightarrow> decimal list \<Rightarrow> decimal list \<Rightarrow> mixline list) \<Rightarrow> nat \<Rightarrow> action \<Rightarrow> decimal \<Rightarrow>
   action list \<Rightarrow> error + mixline list" where
  "Echo_mixlines grp n a mix_vol acts =
     (case dest_concentrations n a mix_vol acts of
        Inl e \<Rightarrow> Inl e
      | Inr dconcs \<Rightarrow>
          (case each_volumes n a mix_vol acts of
             Inl e \<Rightarrow> Inl e
           | Inr eavols \<Rightarrow>
               if is_EchoFillToVolume a
               then Inr (map (\<lambda>t. MixLine_init [component.name (snd (snd t))]
                                      (none_if_nan (concentration (snd (snd t))))
                                      (none_if_nan (fst t)) (Some (fst (snd t))) None
                                      (if plate (snd (snd t)) \<noteq> [] then plate (snd (snd t)) else ''?''))
                           (zip dconcs (zip eavols (components a))))
               else Inr (grp a dconcs eavols)))"

text \<open>\<^verbatim>\<open>_mixlines\<close> of an action, by its class.\<close>

definition action_mixlines ::
  "(action \<Rightarrow> decimal list \<Rightarrow> decimal list \<Rightarrow> mixline list) \<Rightarrow> nat \<Rightarrow> action \<Rightarrow> decimal \<Rightarrow>
   action list \<Rightarrow> error + mixline list" where
  "action_mixlines grp n a mix_vol acts =
     (if is_echo a then Echo_mixlines grp n a mix_vol acts
      else pipetting_mixlines n a mix_vol acts)"

text \<open>
  \<^verbatim>\<open>Mix.mixlines\<close>. The lines of the actions come from their \<^verbatim>\<open>_mixlines\<close>, the parameter
  \<open>aml\<close>; the buffer line is added when the total volume is fixed, under the name passed
  to \<^verbatim>\<open>mixlines\<close> (by default \<^verbatim>\<open>"Buffer"\<close>), not under the mix's \<^verbatim>\<open>buffer_name\<close>.
\<close>

definition mixlines ::
  "(action \<Rightarrow> decimal \<Rightarrow> action list \<Rightarrow> error + mixline list) \<Rightarrow> nat \<Rightarrow> mix \<Rightarrow> string \<Rightarrow>
   error + mixline list" where
  "mixlines aml n m bname =
     (case mapM (\<lambda>a. case total_volume n m of
                        Inl e \<Rightarrow> Inl e
                      | Inr tv \<Rightarrow> aml a tv (actions m)) (actions m) of
        Inl e \<Rightarrow> Inl e
      | Inr ls \<Rightarrow>
          if has_fixed_total_volume m
          then (case buffer_volume n m of
                  Inl e \<Rightarrow> Inl e
                | Inr bv \<Rightarrow> Inr (concat ls @ [MixLine_init [bname] None None (Some bv) None []]))
          else Inr (concat ls))"

text \<open>The findings of \<^verbatim>\<open>validate\<close>: one constructor for every message, with its data.\<close>

datatype finding =
    FixedConcentrationWithoutTotalVolume
  | UndefinedVolumes "string list list"
  | HigherThanTotalVolume decimal "(string list \<times> decimal) list"
  | NegativeBufferVolume string
  | LowerThanMinVolume decimal string decimal "string list"
  | LastComponentNegative "string list" decimal
  | NegativeVolumes "(string list \<times> decimal) list"
  | IntermediateMixInsufficient string decimal string decimal

text \<open>The list \<^verbatim>\<open>ntx\<close>: names and total volume of the lines that have a total volume.\<close>

definition ntx_of :: "mixline list \<Rightarrow> (string list \<times> decimal) list" where
  "ntx_of ls =
     concat (map (\<lambda>l. case total_tx_vol l of None \<Rightarrow> [] | Some x \<Rightarrow> [(names l, x)]) ls)"

text \<open>The loop that ensures at least \<^verbatim>\<open>min_volume\<close> is pipetted, for one line.\<close>

definition below_min_volume :: "mix \<Rightarrow> mixline \<Rightarrow> bool" where
  "below_min_volume m l =
     (\<not> isnan (each_tx_vol l) \<and> \<not> deq (each_tx_vol l) ZERO_VOL \<and> dlt (each_tx_vol l) (min_volume m))"

definition min_volume_findings :: "mix \<Rightarrow> mixline \<Rightarrow> finding list" where
  "min_volume_findings m l =
     (if below_min_volume m l
      then (if names l = [buffer_name m] then [NegativeBufferVolume (mix.name m)]
            else [LowerThanMinVolume (min_volume m) (mix.name m) (each_tx_vol l) (names l)])
      else [])"

text \<open>
  The check for sufficient volume in intermediate mixes, for one action and the volumes
  that \<^verbatim>\<open>each_volumes\<close> returned for it.
\<close>

definition draws_too_much :: "component \<times> decimal \<Rightarrow> bool" where
  "draws_too_much cv = (is_mix (fst cv) \<and> dlt (component.fixed_total_volume (fst cv)) (snd cv))"

definition intermediate_findings :: "mix \<Rightarrow> action \<Rightarrow> decimal list \<Rightarrow> finding list" where
  "intermediate_findings m a vs =
     map (\<lambda>cv. IntermediateMixInsufficient (component.name (fst cv)) (snd cv) (mix.name m)
                  (component.fixed_total_volume (fst cv)))
       (filter draws_too_much (zip (components a) vs))"

text \<open>
  The checks of \<^verbatim>\<open>validate\<close> that come before the loop over the lines: a
  \<^verbatim>\<open>FixedConcentration\<close> action without a fixed total volume, undefined volumes, and volumes
  above the total volume of the mix.
\<close>

definition volume_findings :: "mix \<Rightarrow> decimal \<Rightarrow> (string list \<times> decimal) list \<Rightarrow> finding list" where
  "volume_findings m tot_vol ntx =
     (if \<not> has_fixed_total_volume m \<and> has_fixed_concentration_action m
      then [FixedConcentrationWithoutTotalVolume] else [])
     @ (if filter (\<lambda>nx. isnan (snd nx)) ntx \<noteq> []
        then [UndefinedVolumes (map fst (filter (\<lambda>nx. isnan (snd nx)) ntx))] else [])
     @ (if filter (\<lambda>nx. dgt (snd nx) tot_vol) ntx \<noteq> []
        then [HigherThanTotalVolume tot_vol (filter (\<lambda>nx. dgt (snd nx) tot_vol) ntx)] else [])"

text \<open>
  The checks that come after it: the last entry of \<^verbatim>\<open>ntx\<close> (usually the buffer) being
  negative, and any negative volume.
\<close>

definition negative_findings :: "(string list \<times> decimal) list \<Rightarrow> finding list" where
  "negative_findings ntx =
     (if dlt (snd (last ntx)) ZERO_VOL
      then [LastComponentNegative (fst (last ntx)) (snd (last ntx))] else [])
     @ (if filter (\<lambda>nx. dlt (snd nx) ZERO_VOL) ntx \<noteq> []
        then [NegativeVolumes (filter (\<lambda>nx. dlt (snd nx) ZERO_VOL) ntx)] else [])"

text \<open>
  \<^verbatim>\<open>Mix.validate\<close>. The argument \<^verbatim>\<open>raise_errors\<close> is accepted and never read. The value of
  \<^verbatim>\<open>tablefmt\<close> only matters for being given or not. \<^verbatim>\<open>ntx[-1]\<close> raises \<^verbatim>\<open>IndexError\<close> when no
  line has a total volume. The findings are appended in the order of the checks.
\<close>

definition validate_lines ::
  "(action \<Rightarrow> decimal \<Rightarrow> action list \<Rightarrow> error + mixline list) \<Rightarrow> nat \<Rightarrow> mix \<Rightarrow> string option \<Rightarrow>
   mixline list option \<Rightarrow> error + mixline list" where
  "validate_lines aml n m tablefmt lines_arg =
     (case lines_arg of
        Some ls \<Rightarrow> Inr ls
      | None \<Rightarrow> (case tablefmt of None \<Rightarrow> Inl ValueError | Some t \<Rightarrow> mixlines aml n m ''Buffer''))"

definition validate ::
  "(action \<Rightarrow> decimal \<Rightarrow> action list \<Rightarrow> error + mixline list) \<Rightarrow> nat \<Rightarrow> mix \<Rightarrow> string option \<Rightarrow>
   mixline list option \<Rightarrow> bool \<Rightarrow> error + finding list" where
  "validate aml n m tablefmt lines_arg raise_errors =
     (case validate_lines aml n m tablefmt lines_arg of
        Inl e \<Rightarrow> Inl e
      | Inr ls \<Rightarrow>
          (case total_volume n m of
             Inl e \<Rightarrow> Inl e
           | Inr tot_vol \<Rightarrow>
               if ntx_of ls = [] then Inl IndexError
               else
                 (case mapM (\<lambda>a. case each_volumes n a tot_vol (actions m) of
                                    Inl e \<Rightarrow> Inl e
                                  | Inr vs \<Rightarrow> Inr (intermediate_findings m a vs)) (actions m) of
                    Inl e \<Rightarrow> Inl e
                  | Inr fs \<Rightarrow>
                      Inr (volume_findings m tot_vol (ntx_of ls)
                           @ concat (map (min_volume_findings m) ls)
                           @ negative_findings (ntx_of ls)
                           @ concat fs))))"

text \<open>
  The seven fault categories of the validation, the category of a finding, and how many
  findings each category calls for: one when its condition holds for the checks that
  report once, one for every line below the minimum volume, and one for every component
  that is a nested mix drawn beyond its fixed total volume. The conditions are those of
  the spec: a \<^verbatim>\<open>FixedConcentration\<close> action without a fixed total volume; an undefined
  transfer volume; a transfer volume above the total volume; a non-zero transfer below
  \<^verbatim>\<open>min_volume\<close>; a negative last line; a negative transfer volume; a nested mix with
  less fixed total volume than is drawn from it.
\<close>

datatype category =
    FixedConcentrationFault | UndefinedVolumeFault | HigherVolumeFault | MinVolumeFault
  | LastNegativeFault | NegativeVolumeFault | IntermediateMixFault

fun category_of :: "finding \<Rightarrow> category" where
  "category_of FixedConcentrationWithoutTotalVolume = FixedConcentrationFault"
| "category_of (UndefinedVolumes _) = UndefinedVolumeFault"
| "category_of (HigherThanTotalVolume _ _) = HigherVolumeFault"
| "category_of (NegativeBufferVolume _) = MinVolumeFault"
| "category_of (LowerThanMinVolume _ _ _ _) = MinVolumeFault"
| "category_of (LastComponentNegative _ _) = LastNegativeFault"
| "category_of (NegativeVolumes _) = NegativeVolumeFault"
| "category_of (IntermediateMixInsufficient _ _ _ _) = IntermediateMixFault"

fun once :: "bool \<Rightarrow> nat" where
  "once b = (if b then 1 else 0)"

fun fault_count :: "mix \<Rightarrow> decimal \<Rightarrow> mixline list \<Rightarrow> decimal list list \<Rightarrow> category \<Rightarrow> nat" where
  "fault_count m tot_vol ls vss FixedConcentrationFault =
     once (list_ex is_FixedConcentration (actions m) \<and> isnan (mix.fixed_total_volume m))"
| "fault_count m tot_vol ls vss UndefinedVolumeFault =
     once (list_ex (\<lambda>nx. isnan (snd nx)) (ntx_of ls))"
| "fault_count m tot_vol ls vss HigherVolumeFault =
     once (list_ex (\<lambda>nx. dlt tot_vol (snd nx)) (ntx_of ls))"
| "fault_count m tot_vol ls vss MinVolumeFault =
     length (filter (\<lambda>l. \<not> isnan (each_tx_vol l) \<and> \<not> deq (each_tx_vol l) (Dec 0) \<and>
                          dlt (each_tx_vol l) (min_volume m)) ls)"
| "fault_count m tot_vol ls vss LastNegativeFault =
     once (dlt (snd (last (ntx_of ls))) (Dec 0))"
| "fault_count m tot_vol ls vss NegativeVolumeFault =
     once (list_ex (\<lambda>nx. dlt (snd nx) (Dec 0)) (ntx_of ls))"
| "fault_count m tot_vol ls vss IntermediateMixFault =
     sum_list (map (\<lambda>avs. length (filter (\<lambda>cv. is_mix (fst cv) \<and>
                                               dlt (component.fixed_total_volume (fst cv)) (snd cv))
                                    (zip (components (fst avs)) (snd avs))))
                 (zip (actions m) vss))"

section \<open>Split mixes\<close>

text \<open>
  The argument \<^verbatim>\<open>excess\<close> of \<^verbatim>\<open>split_mix\<close>: a float or an int is converted by
  \<^verbatim>\<open>Decimal(excess)\<close>, which keeps the exact value of the number (for a float, the value of
  the binary float); a Decimal is taken as it is; anything else raises \<^verbatim>\<open>TypeError\<close>.
\<close>

datatype excess_arg = ExcessFloat decimal | ExcessInt int | ExcessDecimal decimal | ExcessOther

fun excess_decimal :: "excess_arg \<Rightarrow> error + decimal" where
  "excess_decimal (ExcessFloat d) = Inr d"
| "excess_decimal (ExcessInt i) = Inr (Dec (of_int i))"
| "excess_decimal (ExcessDecimal d) = Inr d"
| "excess_decimal ExcessOther = Inl TypeError"

text \<open>\<^verbatim>\<open>volume_multiplier = num_tubes * (1 + excess)\<close>.\<close>

definition volume_multiplier :: "int \<Rightarrow> decimal \<Rightarrow> decimal" where
  "volume_multiplier num_tubes excess = dmul (Dec (of_int num_tubes)) (dadd (Dec 1) excess)"

text \<open>The replacement of the \<^verbatim>\<open>FixedVolume\<close> actions, for one action of the list.\<close>

fun enlarge :: "decimal \<Rightarrow> action \<Rightarrow> action" where
  "enlarge k (FixedVolume cs fv sn cd) = FixedVolume cs (dmul fv k) sn cd"
| "enlarge k a = a"



text \<open>
  \<^verbatim>\<open>split_mix\<close>. The large mix is built by the constructor of \<^verbatim>\<open>Mix\<close> (its subclass
  \<^verbatim>\<open>SplitMix\<close> only overrides \<^verbatim>\<open>instructions\<close>). The field \<^verbatim>\<open>fixed_total_volume\<close> of the
  template is a quantity and never \<^verbatim>\<open>None\<close>, so the test
  \<^verbatim>\<open>mix.fixed_total_volume is not None\<close> holds and the large volume is passed in every case.
\<close>

definition split_mix ::
  "(reference \<Rightarrow> action \<Rightarrow> error + action) \<Rightarrow> nat \<Rightarrow> mix \<Rightarrow> int \<Rightarrow> excess_arg \<Rightarrow> error + mix" where
  "split_mix awr n m num_tubes excess =
     (case excess_decimal excess of
        Inl e \<Rightarrow> Inl e
      | Inr ex \<Rightarrow>
          (case total_volume n m of
             Inl e \<Rightarrow> Inl e
           | Inr tv \<Rightarrow>
               Mix_init awr
                 (ActionSequence (map (enlarge (volume_multiplier num_tubes ex)) (actions m)))
                 (mix.name m) (test_tube_name m)
                 (Some (dmul tv (volume_multiplier num_tubes ex)))
                 (mix.fixed_concentration m) (buffer_name m) (reference m)
                 (Some (min_volume m))))"

section \<open>Reconciliation of a strand against a reference\<close>

text \<open>\<^verbatim>\<open>s.replace(" ", "").replace("-", "")\<close>: every space and every hyphen is removed.\<close>

definition strip_sequence :: "string \<Rightarrow> string" where
  "strip_sequence s = filter (\<lambda>c. c \<noteq> CHR ''-'') (filter (\<lambda>c. c \<noteq> CHR '' '') s)"

text \<open>
  The words of the claim on \<^verbatim>\<open>Strand.with_reference\<close>, "whitespace- and hyphen-stripped":
  every whitespace character (space, tab, line feed, vertical tab, form feed, carriage
  return) and every hyphen is removed.
\<close>

definition is_whitespace :: "char \<Rightarrow> bool" where
  "is_whitespace c = (c \<in> set [CHR '' '', CHR 0x09, CHR 0x0A, CHR 0x0B, CHR 0x0C, CHR 0x0D])"

definition strip_whitespace_and_hyphens :: "string \<Rightarrow> string" where
  "strip_whitespace_and_hyphens s = filter (\<lambda>c. \<not> is_whitespace c \<and> c \<noteq> CHR ''-'') s"

datatype mismatch =
    MismatchConcentration ref_row
  | MismatchPlate ref_row
  | MismatchWell "wellpos option"
  | MismatchSequence seq_cell

text \<open>
  The three tests that \<^verbatim>\<open>with_reference\<close> makes on a row before it looks at the sequence:
  a defined concentration of the receiver equals the row's, a non-empty plate equals the
  row's, a well equals the row's. They read fields that the loop never writes.
\<close>

definition concentration_conflict :: "component \<Rightarrow> ref_row \<Rightarrow> bool" where
  "concentration_conflict c r =
     (\<not> isnan (concentration c) \<and> \<not> deq (Concentration_nM r) (concentration c))"

definition plate_conflict :: "component \<Rightarrow> ref_row \<Rightarrow> bool" where
  "plate_conflict c r = (plate c \<noteq> [] \<and> Plate r \<noteq> plate c)"

definition well_conflict :: "component \<Rightarrow> ref_row \<Rightarrow> bool" where
  "well_conflict c r = (well c \<noteq> None \<and> well c \<noteq> Well r)"

definition row_compatible :: "component \<Rightarrow> ref_row \<Rightarrow> bool" where
  "row_compatible c r =
     (\<not> concentration_conflict c r \<and> \<not> plate_conflict c r \<and> \<not> well_conflict c r)"

fun is_SeqStr :: "seq_cell \<Rightarrow> bool" where
  "is_SeqStr (SeqStr _) = True"
| "is_SeqStr _ = False"

text \<open>
  The body of the loop of \<^verbatim>\<open>Strand.with_reference\<close> over the rows found for the name. The
  state is the receiver, which the body may write to, with the mismatches and the matches
  collected so far. The assignment to \<^verbatim>\<open>self.sequence\<close> happens before the sequences are
  compared.
\<close>

fun strand_row :: "component \<times> mismatch list \<times> ref_row list \<Rightarrow> ref_row \<Rightarrow>
    component \<times> mismatch list \<times> ref_row list" where
  "strand_row (Strand n c p w s, mismatches, matches) r =
     (if concentration_conflict (Strand n c p w s) r
      then (Strand n c p w s, mismatches @ [MismatchConcentration r], matches)
      else if plate_conflict (Strand n c p w s) r
      then (Strand n c p w s, mismatches @ [MismatchPlate r], matches)
      else if well_conflict (Strand n c p w s) r
      then (Strand n c p w s, mismatches @ [MismatchWell (Well r)], matches)
      else (case s of
              Some ss \<Rightarrow>
                (case Sequence r of
                   SeqStr y \<Rightarrow>
                     (if strip_sequence ss \<noteq> strip_sequence y
                      then (Strand n c p w (Some (strip_sequence ss)),
                            mismatches @ [MismatchSequence (Sequence r)], matches)
                      else (Strand n c p w (Some (strip_sequence ss)), mismatches, matches @ [r]))
                 | _ \<Rightarrow> (Strand n c p w s, mismatches, matches @ [r]))
            | None \<Rightarrow> (Strand n c p w s, mismatches, matches @ [r])))"
| "strand_row (other, mismatches, matches) r = (other, mismatches, matches)"

text \<open>The choice of the sequence of the result from the receiver's and the match's.\<close>

fun merged_sequence :: "string option \<Rightarrow> seq_cell \<Rightarrow> error + string option" where
  "merged_sequence None SeqNone = Inr None"
| "merged_sequence (Some ss) SeqNone = Inr (Some ss)"
| "merged_sequence (Some ss) (SeqStr y) = (if y = [] then Inr (Some ss) else Inr (Some y))"
| "merged_sequence None (SeqStr y) = Inr (Some y)"
| "merged_sequence _ SeqOther = Inl RuntimeError"

text \<open>
  What a call returns: the receiver itself, or a new object (from \<^verbatim>\<open>attrs.evolve\<close>).
\<close>

datatype returned = ReturnedSelf | ReturnedNew component

text \<open>
  \<^verbatim>\<open>Strand.with_reference(reference, inplace)\<close>. The result is the receiver as the call
  leaves it, also when the call raises, together with what the call returns or raises.
  No row for the name (the \<^verbatim>\<open>KeyError\<close>) returns the receiver. The method is that of a
  strand; on another component the model returns it untouched.
\<close>

fun Strand_with_reference :: "component \<Rightarrow> reference \<Rightarrow> bool \<Rightarrow> component \<times> (error + returned)" where
  "Strand_with_reference (Strand n c p w s) ref inplace =
     (case filter (\<lambda>r. Name r = n) ref of
        [] \<Rightarrow> (Strand n c p w s, Inr ReturnedSelf)
      | r0 # rs \<Rightarrow>
          (case foldl strand_row (Strand n c p w s, [], []) (r0 # rs) of
             (self, mismatches, matches) \<Rightarrow>
               (case matches of
                  [] \<Rightarrow> (if mismatches \<noteq> [] then (self, Inl ValueError) else (self, Inl IndexError))
                | m # _ \<Rightarrow>
                    (case merged_sequence (sequence self) (Sequence m) of
                       Inl e \<Rightarrow> (self, Inl e)
                     | Inr seq \<Rightarrow>
                         if inplace
                         then (Strand n (Concentration_nM m) (Plate m) (Well m) seq, Inr ReturnedSelf)
                         else (self, Inr (ReturnedNew
                                 (Strand n (Concentration_nM m) (Plate m) (Well m) seq)))))))"
| "Strand_with_reference other ref inplace = (other, Inr ReturnedSelf)"

section \<open>The mixes of the scenarios\<close>

text \<open>
  The mix of the buffer scenario: two \<^verbatim>\<open>FixedVolume\<close> actions of 5 and 10 microlitres
  with one component each, the default buffer name and minimum volume, and the given fixed
  total volume.
\<close>

definition scenario_mix :: "decimal \<Rightarrow> mix" where
  "scenario_mix ftv =
     \<lparr>actions = [FixedVolume [Component ''a'' (Dec 100) [] None] (Dec 5) None True,
                 FixedVolume [Component ''b'' (Dec 100) [] None] (Dec 10) None True],
      name = ''mix'', test_tube_name = None, fixed_total_volume = ftv,
      fixed_concentration = NoConcentration, buffer_name = ''Buffer'', reference = None,
      min_volume = Dec (1 / 2)\<rparr>"

text \<open>
  A mix with two independent faults: 0.2 microlitres of one component, below the minimum
  volume of 0.5 microlitres, and 5 microlitres drawn from a nested mix whose fixed total
  volume is 3 microlitres.
\<close>

definition two_fault_mix :: mix where
  "two_fault_mix =
     \<lparr>actions = [FixedVolume [Component ''a'' (Dec 100) [] None] (Dec (1 / 5)) None True,
                 FixedVolume [MixComponent ''inner'' (Dec 100) (Dec 3)] (Dec 5) None True],
      name = ''outer'', test_tube_name = None, fixed_total_volume = Dec 10,
      fixed_concentration = NoConcentration, buffer_name = ''Buffer'', reference = None,
      min_volume = Dec (1 / 2)\<rparr>"

text \<open>A template for \<^verbatim>\<open>split_mix\<close> that has no fixed total volume.\<close>

definition unfixed_template :: mix where
  "unfixed_template =
     \<lparr>actions = [FixedVolume [Component ''a'' (Dec 100) [] None] (Dec 1) None True],
      name = ''small'', test_tube_name = None, fixed_total_volume = DNAN,
      fixed_concentration = NoConcentration, buffer_name = ''Buffer'', reference = None,
      min_volume = Dec (1 / 2)\<rparr>"


text \<open>
  A mix with one acoustic-dispenser action under the \<^verbatim>\<open>check\<close> policy whose two source
  concentrations differ.
\<close>

definition unequal_check_mix :: mix where
  "unequal_check_mix =
     \<lparr>actions = [EchoEqualTargetConcentration
                   [Component ''a'' (Dec 100) [] None, Component ''b'' (Dec 200) [] None]
                   (Dec (1 / 20)) None DEFAULT_DROPLET_VOL False Check],
      name = ''echo'', test_tube_name = None, fixed_total_volume = Dec 10,
      fixed_concentration = NoConcentration, buffer_name = ''Buffer'', reference = None,
      min_volume = Dec (1 / 2)\<rparr>"

section \<open>Properties\<close>

text \<open>
  C1. A mix whose \<^verbatim>\<open>fixed_total_volume\<close> is defined (not the sentinel) has exactly that
  value as its \<^verbatim>\<open>total_volume\<close>, whatever its actions are; in particular the property
  returns and does not raise, at every depth of calls allowed.
\<close>

theorem total_volume_fixed:
  "\<not> isnan (mix.fixed_total_volume m) \<Longrightarrow> total_volume n m = Inr (mix.fixed_total_volume m)"
  by (simp add: total_volume_def)

theorem total_volume_fixed_witness:
  "\<not> isnan (Dec 12) \<and>
   total_volume 0
     \<lparr>actions = [FixedConcentration [Component ''a'' DNAN [] None] (Dec 50) None True,
                 FillToVolume [] DNAN, FillToVolume [] DNAN],
      name = ''m'', test_tube_name = None, fixed_total_volume = Dec 12,
      fixed_concentration = NoConcentration, buffer_name = ''Buffer'', reference = None,
      min_volume = Dec (1 / 2)\<rparr> = Inr (Dec 12)"
  using total_volume_fixed [of "\<lparr>actions = [FixedConcentration [Component ''a'' DNAN [] None] (Dec 50) None True,
                 FillToVolume [] DNAN, FillToVolume [] DNAN],
      name = ''m'', test_tube_name = None, fixed_total_volume = Dec 12,
      fixed_concentration = NoConcentration, buffer_name = ''Buffer'', reference = None,
      min_volume = Dec (1 / 2)\<rparr>" 0]
  by simp

text \<open>
  C9. Constructing a \<^verbatim>\<open>Mix\<close> from an empty list of actions raises \<^verbatim>\<open>ValueError\<close>, whatever
  the other arguments are and whether a reference is bound or not; and every mix that a
  construction returns has at least one action.
\<close>

theorem Mix_init_empty_actions:
  "Mix_init awr (ActionSequence []) nm ttn ftv fc bn ref mv = Inl ValueError \<and>
   (\<forall>acts_arg m. Mix_init awr acts_arg nm ttn ftv fc bn ref mv = Inr m \<longrightarrow> actions m \<noteq> [])"
  by (auto simp: Mix_init_def split: option.splits sum.splits if_splits)

theorem Mix_init_empty_actions_witness:
  "Mix_init (\<lambda>r a. Inr a) (ActionSequence []) ''m'' None None NoConcentration ''Buffer'' None None
     = Inl ValueError \<and>
   (\<exists>m. Mix_init (\<lambda>r a. Inr a) (SingleAction (FixedVolume [] (Dec 1) None True)) ''m'' None None
          NoConcentration ''Buffer'' None None = Inr m \<and> actions m \<noteq> [])"
  using Mix_init_empty_actions [of "\<lambda>r a. Inr a" "''m''" None None NoConcentration "''Buffer''" None None]
  by (simp add: Mix_init_def)

subsection \<open>Acoustic-dispenser actions\<close>

lemma mapM_Inr_set:
  "mapM f xs = Inr ys \<Longrightarrow> y \<in> set ys \<Longrightarrow> \<exists>x \<in> set xs. f x = Inr y"
  by (induction xs arbitrary: ys) (auto split: sum.splits)

lemma quantize_multiple:
  "quantize dv x = Inr v \<Longrightarrow> \<not> isnan v \<and> (\<exists>k::int. v = dmul (Dec (of_int k)) dv)"
  by (cases dv; cases x) (auto simp: quantize_def split: sum.splits if_splits)

lemma deq_iff: "deq x y \<longleftrightarrow> \<not> isnan x \<and> x = y"
  by (cases x; cases y) auto

lemma check_raises_iff:
  "list_ex (\<lambda>x. \<not> deq x (hd sc)) sc \<longleftrightarrow> list_ex isnan sc \<or> concentrations_differ sc"
proof (cases sc)
  case Nil
  then show ?thesis by (simp add: concentrations_differ_def)
next
  case (Cons a rest)
  have "concentrations_differ sc \<longleftrightarrow> (\<exists>x \<in> set sc. x \<noteq> a)"
  proof -
    have "1 < length (remdups sc) \<longleftrightarrow> 1 < card (set sc)"
      by (simp add: length_remdups_card_conv)
    also have "\<dots> \<longleftrightarrow> (\<exists>x \<in> set sc. x \<noteq> a)"
    proof
      assume c: "1 < card (set sc)"
      show "\<exists>x \<in> set sc. x \<noteq> a"
      proof (rule ccontr)
        assume "\<not> (\<exists>x \<in> set sc. x \<noteq> a)"
        then have "set sc = {a}" using Cons by auto
        then show False using c by simp
      qed
    next
      assume "\<exists>x \<in> set sc. x \<noteq> a"
      then obtain x where x: "x \<in> set sc" "x \<noteq> a" by blast
      have "{a, x} \<subseteq> set sc" using Cons x by auto
      then have "card {a, x} \<le> card (set sc)" by (intro card_mono) auto
      then show "1 < card (set sc)" using x by simp
    qed
    finally show ?thesis by (simp add: concentrations_differ_def)
  qed
  then show ?thesis using Cons
    by (auto simp: list_ex_iff deq_iff)
qed

lemma droplet_multiple_iff:
  "droplet_multiple v dv \<longleftrightarrow> \<not> isnan v \<and> \<not> isnan dv \<and> (\<exists>k::int. v = dmul (Dec (of_int k)) dv)"
proof (cases v; cases dv)
  fix a b assume v: "v = Dec a" and dv: "dv = Dec b"
  show ?thesis
  proof (cases "b = 0")
    case True
    then show ?thesis using v dv by (auto simp: droplet_multiple_def)
  next
    case False
    have "of_int \<lfloor>a / b\<rfloor> = a / b \<longleftrightarrow> (\<exists>k::int. a = of_int k * b)"
    proof
      assume h: "of_int \<lfloor>a / b\<rfloor> = a / b"
      have "of_int \<lfloor>a / b\<rfloor> * b = (a / b) * b" by (simp only: h)
      also have "\<dots> = a" using False by simp
      finally have "a = of_int \<lfloor>a / b\<rfloor> * b" by simp
      then show "\<exists>k::int. a = of_int k * b" by blast
    next
      assume "\<exists>k::int. a = of_int k * b"
      then obtain k :: int where "a = of_int k * b" by blast
      then have "a / b = of_int k" using False by simp
      then show "of_int \<lfloor>a / b\<rfloor> = a / b" by simp
    qed
    then show ?thesis using v dv False by (simp add: droplet_multiple_def)
  qed
qed (auto simp: droplet_multiple_def)

lemma quantize_droplet_multiple:
  "quantize dv x = Inr v \<Longrightarrow> droplet_multiple v dv"
  unfolding droplet_multiple_iff
  by (cases dv; cases x) (auto simp: quantize_def split: sum.splits if_splits)

lemma mapM_quantize:
  "mapM (\<lambda>x. quantize dv (g x)) xs = Inr vs \<Longrightarrow> v \<in> set vs \<Longrightarrow> droplet_multiple v dv"
  by (drule (1) mapM_Inr_set) (auto dest: quantize_droplet_multiple)

lemma mapM_Inr_nth:
  "mapM f xs = Inr ys \<Longrightarrow> length ys = length xs \<and> (\<forall>i < length xs. f (xs ! i) = Inr (ys ! i))"
proof (induction xs arbitrary: ys)
  case Nil
  then show ?case by simp
next
  case (Cons x xs)
  then obtain y ys' where y: "f x = Inr y" and ys': "mapM f xs = Inr ys'" and ys: "ys = y # ys'"
    by (auto split: sum.splits)
  from Cons.IH [OF ys'] have ih: "length ys' = length xs" "\<forall>i < length xs. f (xs ! i) = Inr (ys' ! i)"
    by auto
  show ?case
  proof (intro conjI allI impI)
    show "length ys = length (x # xs)" using ys ih by simp
    fix i assume "i < length (x # xs)"
    then show "f ((x # xs) ! i) = Inr (ys ! i)" using y ys ih by (cases i) auto
  qed
qed

text \<open>
  What \<^verbatim>\<open>EchoTargetConcentration\<close> returns, component by component, for any mix volume:
  the undefined sentinel when the mix volume or the component's ratio of target to source
  concentration is undefined, a whole number of droplets otherwise.
\<close>

lemma target_concentration_volume:
  assumes ev: "each_volumes (Suc n) (EchoTargetConcentration cs tc sn dv cd) mix_vol acts = Inr vs"
    and i: "i < length vs"
  shows "length vs = length cs \<and>
         (if isnan mix_vol \<or> isnan (ddiv tc (concentration (cs ! i)))
          then vs ! i = DNAN else droplet_multiple (vs ! i) dv)"
proof -
  let ?f = "\<lambda>r. if \<not> isnan mix_vol \<and> \<not> isnan r then quantize dv (dmul mix_vol r) else Inr DNAN"
  let ?rs = "ratio_scalar_seq tc (source_concentrations cs)"
  have m: "mapM ?f ?rs = Inr vs" using ev by simp
  from mapM_Inr_nth [OF m] have len: "length vs = length ?rs"
    and nth: "\<forall>j < length ?rs. ?f (?rs ! j) = Inr (vs ! j)" by auto
  have lcs: "length ?rs = length cs" by (simp add: ratio_scalar_seq_def)
  have r: "?rs ! i = ddiv tc (concentration (cs ! i))"
    using i len lcs by (simp add: ratio_scalar_seq_def)
  have "?f (?rs ! i) = Inr (vs ! i)" using nth i len by simp
  then show ?thesis using r len lcs
    by (auto split: if_splits dest: quantize_droplet_multiple)
qed

text \<open>
  C4, as the code has it. For every acoustic-dispenser action and every defined mix
  volume, every volume that \<^verbatim>\<open>each_volumes\<close> returns is an exact integer multiple of the
  action's droplet volume, with two provisos. \<^verbatim>\<open>EchoTargetConcentration\<close> returns the
  undefined sentinel for exactly those components whose ratio of target to source
  concentration is undefined. \<^verbatim>\<open>EchoFixedVolume\<close> and the \<^verbatim>\<open>check\<close> policy hand out the
  stored fixed volume as it is, so the statement covers them when that volume is itself such
  a multiple.
\<close>

theorem echo_each_volumes_quantized:
  assumes ev: "each_volumes (Suc n) a mix_vol acts = Inr vs"
    and i: "i < length vs"
    and echo: "is_echo a"
    and mix_vol: "\<not> isnan mix_vol"
    and fixed: "returns_fixed_volume a \<Longrightarrow> droplet_multiple (action.fixed_volume a) (droplet_volume a)"
  shows "(is_EchoTargetConcentration a \<longrightarrow> length vs = length (components a)) \<and>
         (if is_EchoTargetConcentration a \<and>
             isnan (ddiv (target_concentration a) (concentration (components a ! i)))
          then vs ! i = DNAN
          else droplet_multiple (vs ! i) (droplet_volume a))"
proof (cases a)
  case (EchoFixedVolume cs fv sn dv cd)
  then show ?thesis using ev i fixed by auto
next
  case (EchoEqualTargetConcentration cs fv sn dv cd m)
  have "vs ! i \<in> set vs" using i by simp
  then show ?thesis using EchoEqualTargetConcentration ev fixed
    by (cases m) (auto split: sum.splits if_splits dest: mapM_quantize)
next
  case (EchoTargetConcentration cs tc sn dv cd)
  then show ?thesis using target_concentration_volume [of n cs tc sn dv cd mix_vol acts vs i] ev i mix_vol
    by simp
next
  case (EchoFillToVolume cs ttv dv)
  have "vs ! i \<in> set vs" using i by simp
  then show ?thesis using EchoFillToVolume ev
    by (auto split: sum.splits if_splits dest: quantize_droplet_multiple)
qed (use echo in auto)

theorem echo_each_volumes_quantized_witness:
  "each_volumes (Suc 0)
     (EchoTargetConcentration
        [Component ''a'' (Dec 100) [] None, Component ''b'' DNAN [] None]
        (Dec 50) None (Dec (1 / 40)) True) (Dec 10) [] = Inr [Dec 5, DNAN] \<and>
   droplet_multiple (Dec 5) (Dec (1 / 40)) \<and> [Dec 5, DNAN] ! 1 = DNAN"
  using echo_each_volumes_quantized [where n = 0 and mix_vol = "Dec 10" and acts = "[]"
      and a = "EchoTargetConcentration
        [Component ''a'' (Dec 100) [] None, Component ''b'' DNAN [] None]
        (Dec 50) None (Dec (1 / 40)) True" and vs = "[Dec 5, DNAN]" and i = 0]
    echo_each_volumes_quantized [where n = 0 and mix_vol = "Dec 10" and acts = "[]"
      and a = "EchoTargetConcentration
        [Component ''a'' (Dec 100) [] None, Component ''b'' DNAN [] None]
        (Dec 50) None (Dec (1 / 40)) True" and vs = "[Dec 5, DNAN]" and i = 1]
  by (simp add: ratio_scalar_seq_def quantize_def round_half_even_def)

text \<open>
  C4 as stated fails: for a defined mix volume of 10 microlitres, an
  \<^verbatim>\<open>EchoTargetConcentration\<close> over a component without a concentration returns the
  undefined sentinel, which is no multiple of the droplet volume.
\<close>

theorem echo_quantized_counterexample:
  "each_volumes (Suc 0)
     (EchoTargetConcentration [Component ''a'' DNAN [] None] (Dec 50) None DEFAULT_DROPLET_VOL True)
     (Dec 10) [] = Inr [DNAN] \<and>
   \<not> droplet_multiple DNAN DEFAULT_DROPLET_VOL"
  by (simp add: ratio_scalar_seq_def droplet_multiple_def)

text \<open>
  The constructors of the two classes that define \<^verbatim>\<open>_check_volume\<close> accept every fixed
  volume they are given, and \<^verbatim>\<open>EchoFillToVolume\<close> every target volume.
\<close>

lemma echo_constructors_accept_any_volume:
  "EchoFixedVolume_init cs (Some v) sn dv cd = Inr (EchoFixedVolume (maybesequence_comps cs) v sn dv cd)"
  "EchoEqualTargetConcentration_init cs (Some v) sn dv cd m
     = Inr (EchoEqualTargetConcentration (maybesequence_comps cs) v sn dv cd m)"
  "EchoFillToVolume_init cs (Some v) dv = Inr (EchoFillToVolume (maybesequence_comps cs) v dv)"
  by (simp_all add: EchoFixedVolume_init_def EchoEqualTargetConcentration_init_def
      EchoFillToVolume_init_def)

text \<open>
  C5. The constructor of \<^verbatim>\<open>EchoFixedVolume\<close> accepts a fixed volume of 30 nanolitres with
  the default droplet volume of 25 nanolitres: the action is built, although
  \<^verbatim>\<open>_check_volume\<close> on it raises \<^verbatim>\<open>ValueError\<close>, and \<^verbatim>\<open>each_volumes\<close> later hands out the
  30 nanolitres, which are no whole number of droplets.
\<close>

theorem echo_fixed_volume_unchecked:
  "EchoFixedVolume_init (CompsName ''a'') (Some (Dec (30 / 1000))) None DEFAULT_DROPLET_VOL True
     = Inr (EchoFixedVolume [Component ''a'' DNAN [] None] (Dec (30 / 1000)) None DEFAULT_DROPLET_VOL True) \<and>
   check_volume
     (EchoFixedVolume [Component ''a'' DNAN [] None] (Dec (30 / 1000)) None DEFAULT_DROPLET_VOL True)
     = Inl ValueError \<and>
   each_volumes (Suc 0)
     (EchoFixedVolume [Component ''a'' DNAN [] None] (Dec (30 / 1000)) None DEFAULT_DROPLET_VOL True)
     (Dec 10) [] = Inr [Dec (30 / 1000)] \<and>
   \<not> droplet_multiple (Dec (30 / 1000)) DEFAULT_DROPLET_VOL"
  by code_simp

text \<open>
  C8, as the code has it. With the \<^verbatim>\<open>check\<close> policy, \<^verbatim>\<open>each_volumes\<close> raises exactly when
  some source concentration is undefined or some source concentration differs from another;
  otherwise it returns the fixed volume, unmodified, once for every component.
\<close>

theorem check_each_volumes:
  "each_volumes (Suc n) (EchoEqualTargetConcentration cs fv sn dv cd Check) mix_vol acts =
     (if list_ex isnan (source_concentrations cs) \<or> concentrations_differ (source_concentrations cs)
      then Inl ValueError else Inr (replicate (length cs) fv))"
  using check_raises_iff [of "map concentration cs"] by simp

theorem check_each_volumes_witness:
  "each_volumes (Suc 0)
     (EchoEqualTargetConcentration
        [Component ''a'' (Dec 100) [] None, Component ''b'' (Dec 100) [] None]
        (Dec (1 / 20)) None (Dec (1 / 40)) False Check) (Dec 10) []
     = Inr [Dec (1 / 20), Dec (1 / 20)] \<and>
   each_volumes (Suc 0)
     (EchoEqualTargetConcentration
        [Component ''a'' (Dec 100) [] None, Component ''b'' (Dec 101) [] None]
        (Dec (1 / 20)) None (Dec (1 / 40)) False Check) (Dec 10) []
     = Inl ValueError"
  using check_each_volumes [of 0 "[Component ''a'' (Dec 100) [] None, Component ''b'' (Dec 100) [] None]"
      "Dec (1 / 20)" None "Dec (1 / 40)" False "Dec 10" "[]"]
    check_each_volumes [of 0 "[Component ''a'' (Dec 100) [] None, Component ''b'' (Dec 101) [] None]"
      "Dec (1 / 20)" None "Dec (1 / 40)" False "Dec 10" "[]"]
  by (simp add: concentrations_differ_def)

text \<open>
  C8 as stated fails: a single component without a concentration makes the \<^verbatim>\<open>check\<close>
  policy raise, although no source concentration differs from another.
\<close>

theorem check_counterexample:
  "each_volumes (Suc 0)
     (EchoEqualTargetConcentration [Component ''a'' DNAN [] None] (Dec (1 / 40)) None
        DEFAULT_DROPLET_VOL False Check) (Dec 10) [] = Inl ValueError \<and>
   \<not> concentrations_differ [DNAN]"
  by (simp add: concentrations_differ_def)

subsection \<open>Split mixes\<close>

lemma tx_volumes_FixedVolume:
  "tx_volumes (Suc n) mv acts [FixedVolume cs fv sn cd] = Inr [qsum (replicate (length cs) fv) (Dec 0)]"
  by simp


text \<open>
  What \<^verbatim>\<open>split_mix\<close> does to a template that has no reference bound, whenever it returns:
  every \<^verbatim>\<open>FixedVolume\<close> action has its volume multiplied by \<^verbatim>\<open>num_tubes * (1 + excess)\<close>,
  every other action is kept as it is, the fixed total volume of the large mix is the
  total volume of the template multiplied the same way, and the other fields are copied.
\<close>

lemma split_mix_scales:
  assumes "split_mix awr n m num_tubes excess = Inr m'" and "reference m = None"
  shows "\<exists>ex tv. excess_decimal excess = Inr ex \<and> total_volume n m = Inr tv \<and>
           actions m' = map (enlarge (volume_multiplier num_tubes ex)) (actions m) \<and>
           mix.fixed_total_volume m' = dmul tv (volume_multiplier num_tubes ex) \<and>
           mix.name m' = mix.name m \<and> test_tube_name m' = test_tube_name m \<and>
           mix.fixed_concentration m' = mix.fixed_concentration m \<and>
           buffer_name m' = buffer_name m \<and> reference m' = None \<and> min_volume m' = min_volume m"
  using assms
  by (auto simp: split_mix_def Mix_init_def split: sum.splits if_splits)





text \<open>
  C7. A template without a fixed total volume does not yield a large mix without one: for
  the template with one \<^verbatim>\<open>FixedVolume\<close> action of 1 microlitre and no fixed total volume,
  \<^verbatim>\<open>split_mix\<close> with 10 tubes and an excess of 0.05 returns a mix whose fixed total volume
  is 10.5 microlitres.
\<close>

theorem split_mix_unfixed_template:
  "\<not> has_fixed_total_volume unfixed_template \<and>
   split_mix (\<lambda>r a. Inr a) (Suc 0) unfixed_template 10 (ExcessDecimal (Dec (1 / 20)))
   = Inr \<lparr>actions = [FixedVolume [Component ''a'' (Dec 100) [] None] (Dec (21 / 2)) None True],
       name = ''small'', test_tube_name = None, fixed_total_volume = Dec (21 / 2),
       fixed_concentration = NoConcentration, buffer_name = ''Buffer'', reference = None,
       min_volume = Dec (1 / 2)\<rparr> \<and>
   has_fixed_total_volume
      \<lparr>actions = [FixedVolume [Component ''a'' (Dec 100) [] None] (Dec (21 / 2)) None True],
       name = ''small'', test_tube_name = None, fixed_total_volume = Dec (21 / 2),
       fixed_concentration = NoConcentration, buffer_name = ''Buffer'', reference = None,
       min_volume = Dec (1 / 2)\<rparr>"
  by (simp add: split_mix_def Mix_init_def total_volume_def qsum_def volume_multiplier_def
      has_fixed_total_volume_def unfixed_template_def)

subsection \<open>Validation\<close>

lemma mapM_case_Inr:
  "mapM f xs = Inr ys \<Longrightarrow>
   mapM (\<lambda>a. case f a of Inl e \<Rightarrow> Inl e | Inr v \<Rightarrow> Inr (g a v)) xs
     = Inr (map (\<lambda>av. g (fst av) (snd av)) (zip xs ys))"
  by (induction xs arbitrary: ys) (auto split: sum.splits)

lemma two_members_length:
  "f1 \<in> set fs \<Longrightarrow> f2 \<in> set fs \<Longrightarrow> f1 \<noteq> f2 \<Longrightarrow> 2 \<le> length fs"
proof -
  assume a: "f1 \<in> set fs" "f2 \<in> set fs" "f1 \<noteq> f2"
  then have "{f1, f2} \<subseteq> set fs" by simp
  then have "card {f1, f2} \<le> card (set fs)" by (intro card_mono) auto
  also have "\<dots> \<le> length fs" by (rule card_length)
  finally show ?thesis using a by simp
qed

lemma filter_nonempty_list_ex: "filter P xs \<noteq> [] \<longleftrightarrow> list_ex P xs"
  by (simp add: filter_empty_conv list_ex_iff)

lemma count_volume_findings:
  "length (filter (\<lambda>f. category_of f = c) (volume_findings m tv ntx)) =
     (if c = FixedConcentrationFault
      then once (list_ex is_FixedConcentration (actions m) \<and> isnan (mix.fixed_total_volume m))
      else if c = UndefinedVolumeFault then once (list_ex (\<lambda>nx. isnan (snd nx)) ntx)
      else if c = HigherVolumeFault then once (list_ex (\<lambda>nx. dlt tv (snd nx)) ntx)
      else 0)"
  by (cases c)
     (auto simp: volume_findings_def filter_nonempty_list_ex has_fixed_total_volume_def
        has_fixed_concentration_action_def dgt_def)

lemma count_min_volume_findings:
  "length (filter (\<lambda>f. category_of f = c) (concat (map (min_volume_findings m) ls))) =
     (if c = MinVolumeFault
      then length (filter (\<lambda>l. \<not> isnan (each_tx_vol l) \<and> \<not> deq (each_tx_vol l) (Dec 0) \<and>
                               dlt (each_tx_vol l) (min_volume m)) ls)
      else 0)"
  by (induction ls) (auto simp: min_volume_findings_def below_min_volume_def ZERO_VOL_def)

lemma count_negative_findings:
  "length (filter (\<lambda>f. category_of f = c) (negative_findings ntx)) =
     (if c = LastNegativeFault then once (dlt (snd (last ntx)) (Dec 0))
      else if c = NegativeVolumeFault then once (list_ex (\<lambda>nx. dlt (snd nx) (Dec 0)) ntx)
      else 0)"
  by (cases c) (auto simp: negative_findings_def filter_nonempty_list_ex ZERO_VOL_def)

lemma count_intermediate_one:
  "length (filter (\<lambda>f. category_of f = c) (intermediate_findings m a vs)) =
     (if c = IntermediateMixFault
      then length (filter (\<lambda>cv. is_mix (fst cv) \<and> dlt (component.fixed_total_volume (fst cv)) (snd cv))
                     (zip (components a) vs))
      else 0)"
proof -
  have d: "draws_too_much = (\<lambda>cv. is_mix (fst cv) \<and> dlt (component.fixed_total_volume (fst cv)) (snd cv))"
    by (rule ext) (simp add: draws_too_much_def)
  show ?thesis
    unfolding intermediate_findings_def d by (simp add: filter_map comp_def)
qed

lemma count_intermediate_findings:
  "length (filter (\<lambda>f. category_of f = c)
       (concat (map (\<lambda>av. intermediate_findings m (fst av) (snd av)) zs))) =
     (if c = IntermediateMixFault
      then sum_list (map (\<lambda>avs. length (filter (\<lambda>cv. is_mix (fst cv) \<and>
                                               dlt (component.fixed_total_volume (fst cv)) (snd cv))
                                    (zip (components (fst avs)) (snd avs)))) zs)
      else 0)"
  by (induction zs) (auto simp: count_intermediate_one)

lemma positive_count_member:
  "0 < length (filter P xs) \<Longrightarrow> \<exists>x \<in> set xs. P x"
  by (induction xs) (auto split: if_splits)

lemma validate_value:
  assumes lines: "validate_lines aml n m tablefmt lines_arg = Inr ls"
    and tv: "total_volume n m = Inr tv"
    and ntx: "ntx_of ls \<noteq> []"
    and vols: "mapM (\<lambda>a. each_volumes n a tv (actions m)) (actions m) = Inr vss"
  shows "validate aml n m tablefmt lines_arg raise_errors =
     Inr (volume_findings m tv (ntx_of ls) @ concat (map (min_volume_findings m) ls)
          @ negative_findings (ntx_of ls)
          @ concat (map (\<lambda>av. intermediate_findings m (fst av) (snd av)) (zip (actions m) vss)))"
proof -
  have inter: "mapM (\<lambda>a. case each_volumes n a tv (actions m) of
                            Inl e \<Rightarrow> Inl e
                          | Inr vs \<Rightarrow> Inr (intermediate_findings m a vs)) (actions m)
     = Inr (map (\<lambda>av. intermediate_findings m (fst av) (snd av)) (zip (actions m) vss))"
    using mapM_case_Inr [OF vols] .
  show ?thesis using lines tv ntx inter by (simp add: validate_def)
qed

lemma validate_count:
  "length (filter (\<lambda>f. category_of f = c)
      (volume_findings m tv (ntx_of ls) @ concat (map (min_volume_findings m) ls)
       @ negative_findings (ntx_of ls)
       @ concat (map (\<lambda>av. intermediate_findings m (fst av) (snd av)) (zip (actions m) vss))))
   = fault_count m tv ls vss c"
  unfolding filter_append length_append count_volume_findings count_min_volume_findings
    count_negative_findings count_intermediate_findings
  by (cases c) simp_all

text \<open>
  C2, as the code has it. Called with the lines, or with a table format from which
  \<^verbatim>\<open>mixlines\<close> computes them, \<^verbatim>\<open>validate\<close> raises no finding, whatever \<^verbatim>\<open>raise_errors\<close> is:
  whenever the total volume of the mix and the volumes of every action can be computed and
  some line carries a total transfer volume, it returns the full list of findings, in the
  order of the checks. The list has, for each of the seven fault categories, exactly as
  many findings as the category calls for; so a mix with faults of two different
  categories has a finding of each of the two and at least two findings.
\<close>

theorem validate_returns_findings:
  assumes lines: "validate_lines aml n m tablefmt lines_arg = Inr ls"
    and tv: "total_volume n m = Inr tv"
    and ntx: "ntx_of ls \<noteq> []"
    and vols: "mapM (\<lambda>a. each_volumes n a tv (actions m)) (actions m) = Inr vss"
  shows "\<exists>fs. validate aml n m tablefmt lines_arg raise_errors = Inr fs \<and>
           fs = volume_findings m tv (ntx_of ls) @ concat (map (min_volume_findings m) ls)
                @ negative_findings (ntx_of ls)
                @ concat (map (\<lambda>av. intermediate_findings m (fst av) (snd av)) (zip (actions m) vss)) \<and>
           (\<forall>c. length (filter (\<lambda>f. category_of f = c) fs) = fault_count m tv ls vss c) \<and>
           (\<forall>c1 c2. c1 \<noteq> c2 \<and> 0 < fault_count m tv ls vss c1 \<and> 0 < fault_count m tv ls vss c2 \<longrightarrow>
              (\<exists>f1 \<in> set fs. \<exists>f2 \<in> set fs. category_of f1 = c1 \<and> category_of f2 = c2) \<and>
              2 \<le> length fs)"
proof -
  define fs where "fs = volume_findings m tv (ntx_of ls) @ concat (map (min_volume_findings m) ls)
      @ negative_findings (ntx_of ls)
      @ concat (map (\<lambda>av. intermediate_findings m (fst av) (snd av)) (zip (actions m) vss))"
  have v: "validate aml n m tablefmt lines_arg raise_errors = Inr fs"
    unfolding fs_def by (rule validate_value [OF lines tv ntx vols])
  have count: "length (filter (\<lambda>f. category_of f = c) fs) = fault_count m tv ls vss c" for c
    unfolding fs_def by (rule validate_count)
  have two: "(\<exists>f1 \<in> set fs. \<exists>f2 \<in> set fs. category_of f1 = c1 \<and> category_of f2 = c2) \<and> 2 \<le> length fs"
    if d: "c1 \<noteq> c2" and p1: "0 < fault_count m tv ls vss c1" and p2: "0 < fault_count m tv ls vss c2"
    for c1 c2
  proof -
    have "0 < length (filter (\<lambda>f. category_of f = c1) fs)" using p1 by (simp only: count)
    from positive_count_member [OF this] obtain f1 where f1: "f1 \<in> set fs" "category_of f1 = c1"
      by blast
    have "0 < length (filter (\<lambda>f. category_of f = c2) fs)" using p2 by (simp only: count)
    from positive_count_member [OF this] obtain f2 where f2: "f2 \<in> set fs" "category_of f2 = c2"
      by blast
    have "f1 \<noteq> f2" using d f1(2) f2(2) by blast
    then have "2 \<le> length fs" by (rule two_members_length [OF f1(1) f2(1)])
    then show ?thesis using f1 f2 by blast
  qed
  have c3: "\<forall>c. length (filter (\<lambda>f. category_of f = c) fs) = fault_count m tv ls vss c"
    using count by blast
  have c4: "\<forall>c1 c2. c1 \<noteq> c2 \<and> 0 < fault_count m tv ls vss c1 \<and> 0 < fault_count m tv ls vss c2 \<longrightarrow>
              (\<exists>f1 \<in> set fs. \<exists>f2 \<in> set fs. category_of f1 = c1 \<and> category_of f2 = c2) \<and>
              2 \<le> length fs"
    using two by blast
  show ?thesis
    by (rule exI [of _ fs], intro conjI) (fact v, fact fs_def, fact c3, fact c4)
qed

theorem validate_returns_findings_witness:
  "\<exists>fs. validate (action_mixlines (\<lambda>a d v. []) (Suc 0)) (Suc 0) two_fault_mix (Some ''pipe'') None
          False = Inr fs \<and>
     (\<exists>f1 \<in> set fs. \<exists>f2 \<in> set fs.
        category_of f1 = MinVolumeFault \<and> category_of f2 = IntermediateMixFault) \<and>
     2 \<le> length fs"
proof -
  let ?ls = "[MixLine_init [''a''] (Some (Dec 100)) None (Some (Dec (1 / 5))) None [],
              MixLine_init [''inner''] (Some (Dec 100)) None (Some (Dec 5)) None [],
              MixLine_init [''Buffer''] None None (Some (Dec (24 / 5))) None []]"
  let ?vss = "[[Dec (1 / 5)], [Dec 5]]"
  have lines: "validate_lines (action_mixlines (\<lambda>a d v. []) (Suc 0)) (Suc 0) two_fault_mix
                 (Some ''pipe'') None = Inr ?ls"
    by code_simp
  have tv: "total_volume (Suc 0) two_fault_mix = Inr (Dec 10)"
    by code_simp
  have ntx: "ntx_of ?ls \<noteq> []"
    by code_simp
  have vols: "mapM (\<lambda>a. each_volumes (Suc 0) a (Dec 10) (actions two_fault_mix))
                (actions two_fault_mix) = Inr ?vss"
    by code_simp
  have f1: "0 < fault_count two_fault_mix (Dec 10) ?ls ?vss MinVolumeFault"
    by code_simp
  have f2: "0 < fault_count two_fault_mix (Dec 10) ?ls ?vss IntermediateMixFault"
    by code_simp
  have d: "MinVolumeFault \<noteq> IntermediateMixFault" by simp
  from validate_returns_findings [OF lines tv ntx vols, of False] f1 f2 d
  show ?thesis by blast
qed

text \<open>
  C2 as stated fails for a mix whose action raises when its volumes are computed: the mix
  with a \<^verbatim>\<open>check\<close> policy over two different source concentrations makes \<^verbatim>\<open>validate\<close>
  raise \<^verbatim>\<open>ValueError\<close>, called with a table format and called with lines.
\<close>

theorem validate_raises_with_check_action:
  "validate (action_mixlines (\<lambda>a d v. []) (Suc 0)) (Suc 0) unequal_check_mix (Some ''pipe'') None
     False = Inl ValueError \<and>
   validate (action_mixlines (\<lambda>a d v. []) (Suc 0)) (Suc 0) unequal_check_mix None
     (Some [MixLine_init [''a, b''] None None (Some (Dec (1 / 10))) (Some (Dec (1 / 20))) []])
     False = Inl ValueError"
  by code_simp

text \<open>
  Called with neither lines nor a table format, \<^verbatim>\<open>validate\<close> raises \<^verbatim>\<open>ValueError\<close> for
  every mix.
\<close>

lemma validate_without_lines_or_tablefmt:
  "validate aml n m None None raise_errors = Inl ValueError"
  by (simp add: validate_def validate_lines_def)

text \<open>
  The validation of the two-fault mix, evaluated: one finding for the transfer below the
  minimum volume and one for the nested mix.
\<close>

lemma validate_two_fault_mix:
  "validate (action_mixlines (\<lambda>a d v. []) (Suc 0)) (Suc 0) two_fault_mix (Some ''pipe'') None False =
    Inr [LowerThanMinVolume (Dec (1 / 2)) ''outer'' (Dec (1 / 5)) [''a''],
         IntermediateMixInsufficient ''inner'' (Dec 5) ''outer'' (Dec 3)]"
  by code_simp

lemma scenario_buffer: "buffer_volume (Suc n) (scenario_mix (Dec 12)) = Inr (Dec (- 3))"
  by (simp add: buffer_volume_def total_volume_def scenario_mix_def qsum_def)

lemma scenario_actions:
  "actions (scenario_mix ftv) =
     [FixedVolume [Component ''a'' (Dec 100) [] None] (Dec 5) None True,
      FixedVolume [Component ''b'' (Dec 100) [] None] (Dec 10) None True]"
  by (simp add: scenario_mix_def)

lemma scenario_fields:
  "mix.fixed_total_volume (scenario_mix ftv) = ftv"
  "mix.name (scenario_mix ftv) = ''mix''"
  "buffer_name (scenario_mix ftv) = ''Buffer''"
  "min_volume (scenario_mix ftv) = Dec (1 / 2)"
  by (simp_all add: scenario_mix_def)

lemma scenario_total: "total_volume (Suc n) (scenario_mix (Dec 12)) = Inr (Dec 12)"
  by (simp add: total_volume_def scenario_fields)

lemma scenario_lines: "mixlines (action_mixlines grp (Suc n)) (Suc n) (scenario_mix (Dec 12)) ''Buffer'' =
   Inr [MixLine_init [''a''] (Some (Dec 100)) None (Some (Dec 5)) None [],
        MixLine_init [''b''] (Some (Dec 100)) None (Some (Dec 10)) None [],
        MixLine_init [''Buffer''] None None (Some (Dec (- 3))) None []]"
  by (simp add: mixlines_def scenario_buffer scenario_total scenario_actions scenario_fields
      action_mixlines_def pipetting_mixlines_def has_fixed_total_volume_def)

text \<open>
  C3, as the code has it. For the mix with two \<^verbatim>\<open>FixedVolume\<close> actions of 5 and 10
  microlitres and a fixed total volume of 12 microlitres, \<^verbatim>\<open>buffer_volume\<close> is \<open>-3\<close>
  microlitres and \<^verbatim>\<open>validate\<close> returns exactly three findings, each about the negative
  buffer volume: the buffer line is below the minimum volume, the last line is negative,
  and some volume is negative.
\<close>

theorem scenario_12:
  "buffer_volume (Suc n) (scenario_mix (Dec 12)) = Inr (Dec (- 3)) \<and>
   validate (action_mixlines grp (Suc n)) (Suc n) (scenario_mix (Dec 12)) (Some tablefmt) None raise_errors
     = Inr [NegativeBufferVolume ''mix'',
            LastComponentNegative [''Buffer''] (Dec (- 3)),
            NegativeVolumes [([''Buffer''], Dec (- 3))]]"
  by (simp add: scenario_buffer validate_def validate_lines_def scenario_lines scenario_total scenario_actions
       scenario_fields MixLine_init_def ntx_of_def intermediate_findings_def
       draws_too_much_def volume_findings_def negative_findings_def min_volume_findings_def
       below_min_volume_def has_fixed_total_volume_def has_fixed_concentration_action_def
       dgt_def ZERO_VOL_def)

text \<open>C3 as stated fails: the validation of that mix returns three findings, not one.\<close>

theorem scenario_12_three_findings:
  "map_sum id length
     (validate (action_mixlines (\<lambda>a d v. []) (Suc 0)) (Suc 0) (scenario_mix (Dec 12)) (Some ''pipe'') None False)
     = Inr 3 \<and>
   validate (action_mixlines (\<lambda>a d v. []) (Suc 0)) (Suc 0) (scenario_mix (Dec 12)) (Some ''pipe'') None False
     \<noteq> Inr [NegativeBufferVolume ''mix'']"
  by code_simp

text \<open>
  The companion scenario: with a fixed total volume of 20 microlitres the buffer volume is
  5 microlitres and there is no finding.
\<close>

lemma scenario_20:
  "buffer_volume (Suc 0) (scenario_mix (Dec 20)) = Inr (Dec 5) \<and>
   validate (action_mixlines (\<lambda>a d v. []) (Suc 0)) (Suc 0) (scenario_mix (Dec 20)) (Some ''pipe'') None False = Inr []"
  by code_simp

subsection \<open>Reconciliation of a strand\<close>

lemma strip_sequence_idem: "strip_sequence (strip_sequence s) = strip_sequence s"
  by (auto simp: strip_sequence_def intro: filter_cong)

lemma row_compatible_sequence:
  "row_compatible (Strand n c p w s) r = row_compatible (Strand n c p w s') r"
  by (simp add: row_compatible_def concentration_conflict_def plate_conflict_def well_conflict_def)

lemma strand_row_receiver:
  "fst (strand_row (Strand n c p w (Some ss), ms, mt) r) =
     Strand n c p w (Some (if row_compatible (Strand n c p w (Some ss)) r \<and> is_SeqStr (Sequence r)
                           then strip_sequence ss else ss))"
  by (cases "Sequence r") (auto simp: row_compatible_def)

lemma foldl_strand_row_receiver:
  "fst (foldl strand_row (Strand n c p w (Some ss), ms, mt) rows) =
     Strand n c p w
       (Some (if list_ex (\<lambda>r. row_compatible (Strand n c p w (Some ss)) r \<and> is_SeqStr (Sequence r)) rows
              then strip_sequence ss else ss))"
proof (induction rows arbitrary: ss ms mt)
  case Nil
  then show ?case by simp
next
  case (Cons r rows)
  obtain self' ms' mt' where st: "strand_row (Strand n c p w (Some ss), ms, mt) r = (self', ms', mt')"
    by (cases "strand_row (Strand n c p w (Some ss), ms, mt) r") auto
  let ?hit = "row_compatible (Strand n c p w (Some ss)) r \<and> is_SeqStr (Sequence r)"
  have self': "self' = Strand n c p w (Some (if ?hit then strip_sequence ss else ss))"
    using strand_row_receiver [of n c p w ss ms mt r] st by simp
  show ?case
  proof (cases ?hit)
    case True
    have "fst (foldl strand_row (Strand n c p w (Some (strip_sequence ss)), ms', mt') rows) =
        Strand n c p w (Some (strip_sequence ss))"
      using Cons.IH [of "strip_sequence ss" ms' mt'] by (simp add: strip_sequence_idem)
    then show ?thesis using True st self' by simp
  next
    case False
    have "fst (foldl strand_row (Strand n c p w (Some ss), ms', mt') rows) =
        Strand n c p w (Some (if list_ex (\<lambda>r. row_compatible (Strand n c p w (Some ss)) r \<and> is_SeqStr (Sequence r)) rows
              then strip_sequence ss else ss))"
      using Cons.IH [of ss ms' mt'] by simp
    then show ?thesis using False st self' by auto
  qed
qed

text \<open>
  C10, as the code has it. \<^verbatim>\<open>with_reference(reference, inplace=False)\<close> on a strand with
  a sequence is not a pure transform: when the reference has a row for the strand's name
  that passes the tests on concentration, plate and well and whose sequence is a string,
  the call leaves the receiver with its sequence replaced by the same sequence without
  spaces and hyphens, and with every other field as it was; whatever the call returns
  is a new object. Only the space character and the hyphen are removed.
\<close>

theorem strand_with_reference_overwrites_receiver:
  assumes r: "r \<in> set ref" and name: "Name r = n"
    and compat: "row_compatible (Strand n c p w (Some ss)) r"
    and str: "is_SeqStr (Sequence r)"
  shows "fst (Strand_with_reference (Strand n c p w (Some ss)) ref False)
           = Strand n c p w (Some (strip_sequence ss)) \<and>
         (\<forall>x. snd (Strand_with_reference (Strand n c p w (Some ss)) ref False) = Inr x
               \<longrightarrow> (\<exists>new. x = ReturnedNew new))"
proof -
  let ?rows = "filter (\<lambda>r. Name r = n) ref"
  have in_rows: "r \<in> set ?rows" using r name by simp
  then obtain r0 rs where rows: "?rows = r0 # rs" by (cases ?rows) auto
  have hit: "list_ex (\<lambda>r. row_compatible (Strand n c p w (Some ss)) r \<and> is_SeqStr (Sequence r)) ?rows"
    using in_rows compat str unfolding list_ex_iff by blast
  obtain self' ms mt where st: "foldl strand_row (Strand n c p w (Some ss), [], []) ?rows = (self', ms, mt)"
    by (cases "foldl strand_row (Strand n c p w (Some ss), [], []) ?rows") auto
  have self': "self' = Strand n c p w (Some (strip_sequence ss))"
    using foldl_strand_row_receiver [of n c p w ss "[]" "[]" ?rows] hit st by simp
  show ?thesis
    using rows st self'
    by (auto split: list.splits sum.splits)
qed

theorem strand_with_reference_overwrites_receiver_witness:
  "row_compatible (Strand ''s1'' DNAN [] None (Some ''AC GT-TT''))
     \<lparr>Name = ''s1'', Concentration_nM = Dec 100, Plate = ''P1'', Well = Some (1, 1),
      Sequence = SeqStr ''ACGTTT''\<rparr> \<and>
   fst (Strand_with_reference (Strand ''s1'' DNAN [] None (Some ''AC GT-TT''))
     [\<lparr>Name = ''s1'', Concentration_nM = Dec 100, Plate = ''P1'', Well = Some (1, 1),
       Sequence = SeqStr ''ACGTTT''\<rparr>] False) = Strand ''s1'' DNAN [] None (Some ''ACGTTT'')"
  using strand_with_reference_overwrites_receiver
    [of "\<lparr>Name = ''s1'', Concentration_nM = Dec 100, Plate = ''P1'', Well = Some (1, 1),
          Sequence = SeqStr ''ACGTTT''\<rparr>"
        "[\<lparr>Name = ''s1'', Concentration_nM = Dec 100, Plate = ''P1'', Well = Some (1, 1),
           Sequence = SeqStr ''ACGTTT''\<rparr>]" "''s1''" DNAN "[]" None "''AC GT-TT''"]
  by (simp add: row_compatible_def concentration_conflict_def plate_conflict_def
      well_conflict_def strip_sequence_def)

text \<open>
  C10 as stated fails: a tab is whitespace and is not removed. The strand with the
  sequence \<^verbatim>\<open>A<tab>C\<close> matches the row with the same sequence, a new strand is returned,
  and the receiver keeps \<^verbatim>\<open>A<tab>C\<close>, which is not its form without whitespace and
  hyphens, \<^verbatim>\<open>AC\<close>.
\<close>

theorem strand_tab_counterexample:
  "Strand_with_reference (Strand ''s1'' DNAN [] None (Some [CHR ''A'', CHR 0x09, CHR ''C'']))
     [\<lparr>Name = ''s1'', Concentration_nM = Dec 100, Plate = ''P1'', Well = Some (1, 1),
       Sequence = SeqStr [CHR ''A'', CHR 0x09, CHR ''C'']\<rparr>] False
   = (Strand ''s1'' DNAN [] None (Some [CHR ''A'', CHR 0x09, CHR ''C'']),
      Inr (ReturnedNew (Strand ''s1'' (Dec 100) ''P1'' (Some (1, 1))
             (Some [CHR ''A'', CHR 0x09, CHR ''C''])))) \<and>
   strip_whitespace_and_hyphens [CHR ''A'', CHR 0x09, CHR ''C''] = ''AC''"
  by code_simp

end
